theory Spec2Isabelle
  imports Main "HOL-Library.AList" "HOL-Library.Sublist" "HOL-Library.Word"
begin

unbundle bit_operations_syntax

section \<open>Strings as JavaScript has them\<close>

text \<open>
  A JavaScript string is modelled as a \<^typ>\<open>string\<close>, one \<^typ>\<open>char\<close> per code unit.
  Every function below only compares code units and counts them, so nothing depends on
  how many bits a code unit has.
\<close>

text \<open>\<^verbatim>\<open>s.indexOf(pat)\<close>: the index of the first occurrence of \<open>pat\<close>, or \<open>-1\<close>.\<close>

fun indexOf_from :: "nat \<Rightarrow> string \<Rightarrow> string \<Rightarrow> int" where
  "indexOf_from i pat [] = (if pat = [] then int i else - 1)"
| "indexOf_from i pat (c # cs) =
     (if prefix pat (c # cs) then int i else indexOf_from (Suc i) pat cs)"

definition indexOf :: "string \<Rightarrow> string \<Rightarrow> int" where
  "indexOf s pat = indexOf_from 0 pat s"

text \<open>
  \<^verbatim>\<open>s.replace(pat, rep)\<close> with a string pattern: only the first occurrence is replaced.
  The only replacement text the program passes is \<^verbatim>\<open>'/var/task'\<close>, which has no
  \<^verbatim>\<open>$\<close> pattern in it, so the replacement is inserted as it is.
\<close>

fun replace_first :: "string \<Rightarrow> string \<Rightarrow> string \<Rightarrow> string" where
  "replace_first pat rep [] = (if pat = [] then rep else [])"
| "replace_first pat rep (c # cs) =
     (if prefix pat (c # cs) then rep @ drop (length pat) (c # cs)
      else c # replace_first pat rep cs)"

text \<open>\<^verbatim>\<open>s.split(sep)\<close> for a one-character separator: never the empty list.\<close>

fun split_on :: "char \<Rightarrow> string \<Rightarrow> string list" where
  "split_on sep [] = [[]]"
| "split_on sep (c # cs) =
     (if c = sep then [] # split_on sep cs
      else (case split_on sep cs of
              [] \<Rightarrow> [[c]]
            | seg # segs \<Rightarrow> (c # seg) # segs))"

text \<open>\<^verbatim>\<open>parts.join(sep)\<close>.\<close>

fun join_with :: "string \<Rightarrow> string list \<Rightarrow> string" where
  "join_with sep [] = []"
| "join_with sep [p] = p"
| "join_with sep (p # q # ps) = p @ sep @ join_with sep (q # ps)"

section \<open>The POSIX \<^verbatim>\<open>path\<close> module of Node.js\<close>

text \<open>
  \<^verbatim>\<open>path.normalize\<close> walks the segments between slashes: an empty segment and
  \<^verbatim>\<open>.\<close> are dropped, \<^verbatim>\<open>..\<close> removes the segment before it; where there is none to
  remove it is dropped in an absolute path and kept in a relative one. The segments kept so
  far are held in reverse order.
\<close>

fun normalizeStep :: "bool \<Rightarrow> string list \<Rightarrow> string \<Rightarrow> string list" where
  "normalizeStep allowAboveRoot res seg =
     (if seg = [] \<or> seg = ''.'' then res
      else if seg = ''..'' then
        (case res of
           [] \<Rightarrow> (if allowAboveRoot then [''..''] else [])
         | lastSeg # below \<Rightarrow>
             (if lastSeg \<noteq> ''..'' then below
              else if allowAboveRoot then ''..'' # lastSeg # below
              else lastSeg # below))
      else seg # res)"

definition normalizeString :: "string \<Rightarrow> bool \<Rightarrow> string" where
  "normalizeString p allowAboveRoot =
     join_with ''/'' (rev (foldl (normalizeStep allowAboveRoot) [] (split_on CHR ''/'' p)))"

definition path_normalize :: "string \<Rightarrow> string" where
  "path_normalize p =
     (if p = [] then ''.''
      else
        let isAbsolute = (hd p = CHR ''/'');
            trailingSeparator = (last p = CHR ''/'');
            q = normalizeString p (\<not> isAbsolute)
        in if q = [] then (if isAbsolute then ''/'' else if trailingSeparator then ''./'' else ''.'')
           else (if isAbsolute then ''/'' else []) @ q @ (if trailingSeparator then ''/'' else []))"

text \<open>\<^verbatim>\<open>path.join(...args)\<close>: the non-empty arguments, joined by a slash and normalized.\<close>

definition path_join :: "string list \<Rightarrow> string" where
  "path_join args =
     (let parts = filter (\<lambda>a. a \<noteq> []) args
      in if parts = [] then ''.'' else path_normalize (join_with ''/'' parts))"

text \<open>
  \<^verbatim>\<open>path.basename(p)\<close>: trailing slashes are ignored, the result is what follows the last
  slash that is left.
\<close>

definition path_basename :: "string \<Rightarrow> string" where
  "path_basename p =
     (let body = rev (dropWhile (\<lambda>c. c = CHR ''/'') (rev p))
      in rev (takeWhile (\<lambda>c. c \<noteq> CHR ''/'') (rev body)))"

text \<open>
  \<^verbatim>\<open>path.dirname(p)\<close>: the scan runs from the end down to index 1, skips trailing slashes,
  and cuts at the first slash after a character that is not one.
\<close>

fun dirname_end :: "bool \<Rightarrow> string \<Rightarrow> nat option" where
  "dirname_end matchedSlash [] = None"
| "dirname_end matchedSlash (c # front) =
     (if front = [] then None
      else if c = CHR ''/'' then
        (if \<not> matchedSlash then Some (length front) else dirname_end matchedSlash front)
      else dirname_end False front)"

definition path_dirname :: "string \<Rightarrow> string" where
  "path_dirname p =
     (if p = [] then ''.''
      else
        let hasRoot = (hd p = CHR ''/'')
        in case dirname_end True (rev p) of
             None \<Rightarrow> (if hasRoot then ''/'' else ''.'')
           | Some e \<Rightarrow> (if hasRoot \<and> e = 1 then ''//'' else take e p))"

section \<open>Values of a parsed manifest\<close>

text \<open>
  The values \<^verbatim>\<open>TOML.parse\<close> builds: strings, numbers (an IEEE double, kept as its 64
  bits), big integers, booleans, dates, arrays and tables. A table is the list of its
  properties in their order. \<open>None\<close> of type \<^typ>\<open>'a option\<close> stands for \<^verbatim>\<open>undefined\<close>.
\<close>

datatype jsval =
    JStr string
  | JNum "64 word"
  | JBigInt int
  | JBool bool
  | JDate string
  | JArr "jsval list"
  | JObj "(string \<times> jsval) list"

definition typeof :: "jsval \<Rightarrow> string" where
  "typeof v =
     (case v of
        JStr _ \<Rightarrow> ''string''
      | JNum _ \<Rightarrow> ''number''
      | JBigInt _ \<Rightarrow> ''bigint''
      | JBool _ \<Rightarrow> ''boolean''
      | JDate _ \<Rightarrow> ''object''
      | JArr _ \<Rightarrow> ''object''
      | JObj _ \<Rightarrow> ''object'')"

text \<open>A double is zero when all bits but the sign are, and NaN when the exponent is all ones
  and the fraction is not zero.\<close>

definition double_is_zero :: "64 word \<Rightarrow> bool" where
  "double_is_zero w = (w AND 0x7FFFFFFFFFFFFFFF = 0)"

definition double_is_nan :: "64 word \<Rightarrow> bool" where
  "double_is_nan w =
     (w AND 0x7FF0000000000000 = 0x7FF0000000000000 \<and> w AND 0x000FFFFFFFFFFFFF \<noteq> 0)"

text \<open>What an \<^verbatim>\<open>if\<close> or \<^verbatim>\<open>&&\<close> takes for true.\<close>

fun truthy :: "jsval option \<Rightarrow> bool" where
  "truthy None = False"
| "truthy (Some (JStr s)) = (s \<noteq> [])"
| "truthy (Some (JNum w)) = (\<not> double_is_zero w \<and> \<not> double_is_nan w)"
| "truthy (Some (JBigInt n)) = (n \<noteq> 0)"
| "truthy (Some (JBool b)) = b"
| "truthy (Some (JDate _)) = True"
| "truthy (Some (JArr _)) = True"
| "truthy (Some (JObj _)) = True"

text \<open>
  Reading a property by name. The names this program reads (\<^verbatim>\<open>tool\<close>, \<^verbatim>\<open>poetry\<close>,
  \<^verbatim>\<open>dependencies\<close>, \<^verbatim>\<open>develop\<close>, \<^verbatim>\<open>path\<close>) are no members of the prototypes of
  strings, numbers, arrays or dates, so only a table can answer with a value.
\<close>

definition getProp :: "jsval \<Rightarrow> string \<Rightarrow> jsval option" where
  "getProp v k = (case v of JObj kvs \<Rightarrow> map_of kvs k | _ \<Rightarrow> None)"

datatype js_error =
    TypeError
  | TomlError
  | ENOENT
  | EISDIR
  | EEXIST
  | ENOTDIR
  | ENOTEMPTY

section \<open>The manifest rewriter\<close>

text \<open>
  Lines 239 to 241 of \<^verbatim>\<open>removeTomlEditableDependencies\<close>: the first occurrence of the
  project root in the manifest's path becomes \<^verbatim>\<open>/var/task\<close>, and the last segment of the
  result (the manifest's file name) is cut off.
\<close>

definition dockerModulePath :: "string \<Rightarrow> string \<Rightarrow> string" where
  "dockerModulePath tomlFilePath projectRootPath =
     (let dockerTomlPath = replace_first projectRootPath ''/var/task'' tomlFilePath;
          segs = split_on CHR ''/'' dockerTomlPath
      in join_with ''/'' (take (length segs - 1) segs))"

text \<open>Line 243: the dependency's path, resolved against that directory.\<close>

definition finalPath :: "string \<Rightarrow> string \<Rightarrow> string \<Rightarrow> string" where
  "finalPath tomlFilePath projectRootPath p =
     path_join [dockerModulePath tomlFilePath projectRootPath, p]"

text \<open>
  The guard of line 238 on \<^verbatim>\<open>dependency.path\<close>, once \<^verbatim>\<open>projectRootPath\<close> is known to be a
  non-empty string, and the assignment it protects. A string has \<^verbatim>\<open>indexOf\<close> search for a
  substring; an array has it search for an element, and \<^verbatim>\<open>path.join\<close> then refuses the
  array; a truthy value of any other kind has no \<^verbatim>\<open>indexOf\<close> to call.
\<close>

definition rewritePath ::
  "string \<Rightarrow> string \<Rightarrow> (string \<times> jsval) list \<Rightarrow> js_error + (string \<times> jsval) list" where
  "rewritePath tomlFilePath projectRootPath dependency =
     (if \<not> truthy (map_of dependency ''path'') then Inr dependency
      else case map_of dependency ''path'' of
        Some (JStr p) \<Rightarrow>
          (if indexOf p ''..'' > - 1
           then Inr (AList.update ''path''
                  (JStr (finalPath tomlFilePath projectRootPath p)) dependency)
           else Inr dependency)
      | Some (JArr vs) \<Rightarrow> (if JStr ''..'' \<in> set vs then Inl TypeError else Inr dependency)
      | _ \<Rightarrow> Inl TypeError)"

text \<open>
  The callback of \<^verbatim>\<open>dependencyKeys.forEach\<close> (lines 200 to 247) on one dependency. Of the
  values whose \<^verbatim>\<open>typeof\<close> is \<^verbatim>\<open>'object'\<close>, arrays and dates have neither a
  \<^verbatim>\<open>develop\<close> nor a \<^verbatim>\<open>path\<close> property and pass unchanged.
\<close>

definition rewriteDependency :: "string \<Rightarrow> string option \<Rightarrow> jsval \<Rightarrow> js_error + jsval" where
  "rewriteDependency tomlFilePath projectRootPath dependency =
     (if typeof dependency = ''object'' then
        (case dependency of
           JObj kvs \<Rightarrow>
             (let kvs1 = (if truthy (map_of kvs ''develop'') then AList.delete ''develop'' kvs
                          else kvs)
              in case projectRootPath of
                   None \<Rightarrow> Inr (JObj kvs1)
                 | Some root \<Rightarrow>
                     (if root \<noteq> [] \<and> length root > 0
                      then map_sum id JObj (rewritePath tomlFilePath root kvs1)
                      else Inr (JObj kvs1)))
         | _ \<Rightarrow> Inr dependency)
      else Inr dependency)"

text \<open>The loop over a list of values: the first exception ends it.\<close>

fun forEachDependency ::
  "string \<Rightarrow> string option \<Rightarrow> jsval list \<Rightarrow> js_error + jsval list" where
  "forEachDependency tomlFilePath projectRootPath [] = Inr []"
| "forEachDependency tomlFilePath projectRootPath (d # ds) =
     (case rewriteDependency tomlFilePath projectRootPath d of
        Inl e \<Rightarrow> Inl e
      | Inr d' \<Rightarrow>
          (case forEachDependency tomlFilePath projectRootPath ds of
             Inl e \<Rightarrow> Inl e
           | Inr ds' \<Rightarrow> Inr (d' # ds')))"

text \<open>
  \<^verbatim>\<open>Object.keys(dependencies)\<close> and the loop over it (lines 198 to 248). A table has its
  property names for keys and an array its indices: the values are visited one by one, each
  in its place. A string has its indices for keys and one-character strings for values, which
  the callback skips; a number, a big integer, a boolean and a date have no keys.
\<close>

definition rewriteDependencies :: "string \<Rightarrow> string option \<Rightarrow> jsval \<Rightarrow> js_error + jsval" where
  "rewriteDependencies tomlFilePath projectRootPath dependencies =
     (case dependencies of
        JObj kvs \<Rightarrow>
          map_sum id (\<lambda>vs. JObj (zip (map fst kvs) vs))
            (forEachDependency tomlFilePath projectRootPath (map snd kvs))
      | JArr vs \<Rightarrow> map_sum id JArr (forEachDependency tomlFilePath projectRootPath vs)
      | _ \<Rightarrow> Inr dependencies)"

text \<open>
  The manifest is mutated where it is; the model rebuilds the tables around the value that
  changed. Writing a property that exists keeps its place among the others, and
  \<^verbatim>\<open>delete\<close> removes it.
\<close>

definition updateProp :: "jsval \<Rightarrow> string \<Rightarrow> jsval \<Rightarrow> jsval" where
  "updateProp v k x = (case v of JObj kvs \<Rightarrow> JObj (AList.update k x kvs) | _ \<Rightarrow> v)"

definition deleteProp :: "jsval \<Rightarrow> string \<Rightarrow> jsval" where
  "deleteProp v k = (case v of JObj kvs \<Rightarrow> JObj (AList.delete k kvs) | _ \<Rightarrow> v)"

text \<open>
  Lines 195 to 250 on the parsed manifest: \<^verbatim>\<open>tomlFileContents.tool.poetry.dependencies\<close>
  raises a TypeError when \<^verbatim>\<open>tool\<close> or \<^verbatim>\<open>poetry\<close> is undefined, \<^verbatim>\<open>Object.keys\<close> raises
  one when \<^verbatim>\<open>dependencies\<close> is. The dependencies are rewritten where they are, and
  \<^verbatim>\<open>dev-dependencies\<close> is deleted from the \<^verbatim>\<open>poetry\<close> table.
\<close>

definition rewriteManifest :: "string \<Rightarrow> string option \<Rightarrow> jsval \<Rightarrow> js_error + jsval" where
  "rewriteManifest tomlFilePath projectRootPath tomlFileContents =
     (case getProp tomlFileContents ''tool'' of
        None \<Rightarrow> Inl TypeError
      | Some tool \<Rightarrow>
          (case getProp tool ''poetry'' of
             None \<Rightarrow> Inl TypeError
           | Some poetry \<Rightarrow>
               (case getProp poetry ''dependencies'' of
                  None \<Rightarrow> Inl TypeError
                | Some dependencies \<Rightarrow>
                    (case rewriteDependencies tomlFilePath projectRootPath dependencies of
                       Inl e \<Rightarrow> Inl e
                     | Inr dependencies' \<Rightarrow>
                         Inr (updateProp tomlFileContents ''tool''
                           (updateProp tool ''poetry''
                             (deleteProp
                               (updateProp poetry ''dependencies'' dependencies')
                               ''dev-dependencies'')))))))"

text \<open>The expression \<^verbatim>\<open>v.k1.k2...\<close>, \<open>None\<close> where a step finds nothing.\<close>

fun getPath :: "jsval \<Rightarrow> string list \<Rightarrow> jsval option" where
  "getPath v [] = Some v"
| "getPath v (k # ks) = (case getProp v k of None \<Rightarrow> None | Some x \<Rightarrow> getPath x ks)"

section \<open>The file system and the processes outside\<close>

text \<open>
  The file system is the list of the paths that exist, each a file with its contents or a
  directory; \<^const>\<open>map_of\<close> reads it. Paths are compared as they are written, and a
  path lies under a directory when it continues the directory's path after a slash. There
  are no permissions and no links. The trace keeps every call this program makes to the
  file system and to a process, in order.
\<close>

datatype node = File string | Dir

type_synonym filesystem = "(string \<times> node) list"

text \<open>What the callback of \<^verbatim>\<open>exec\<close> receives: whether there is an error, and the two
  outputs of the process.\<close>

datatype exec_result = ExecResult (err: bool) (stdout: string) (stderr: string)

text \<open>An event of a process keeps the command line, the file system the process was started
  on and what the callback received.\<close>

datatype event =
    ReadFile string
  | RmFile string
  | WriteFile string string
  | MkdirP string
  | EmptyDir string
  | Rmdir string
  | Exec string filesystem exec_result

record world =
  nodes :: filesystem
  trace :: "event list"

definition under :: "string \<Rightarrow> string \<Rightarrow> bool" where
  "under d q = (prefix (d @ ''/'') q \<and> q \<noteq> d @ ''/'')"

definition logged :: "event \<Rightarrow> world \<Rightarrow> world" where
  "logged ev w = w\<lparr>trace := trace w @ [ev]\<rparr>"

text \<open>\<^verbatim>\<open>fs.readFileSync(p).toString()\<close>.\<close>

definition readFileSync :: "string \<Rightarrow> world \<Rightarrow> (js_error + string) \<times> world" where
  "readFileSync p w =
     (case map_of (nodes w) p of
        None \<Rightarrow> Inl ENOENT
      | Some Dir \<Rightarrow> Inl EISDIR
      | Some (File s) \<Rightarrow> Inr s,
      logged (ReadFile p) w)"

text \<open>\<^verbatim>\<open>fs.rmSync(p, {force})\<close>, not recursive: a directory is refused, and a path that
  does not exist is an error unless \<^verbatim>\<open>force\<close> is set.\<close>

definition rmSync :: "string \<Rightarrow> bool \<Rightarrow> world \<Rightarrow> js_error option \<times> world" where
  "rmSync p force w =
     (case map_of (nodes w) p of
        None \<Rightarrow> (if force then None else Some ENOENT, logged (RmFile p) w)
      | Some Dir \<Rightarrow> (Some EISDIR, logged (RmFile p) w)
      | Some (File s) \<Rightarrow> (None, logged (RmFile p) (w\<lparr>nodes := AList.delete p (nodes w)\<rparr>)))"

text \<open>\<^verbatim>\<open>fs.writeFileSync(p, s)\<close>.\<close>

definition writeFileSync :: "string \<Rightarrow> string \<Rightarrow> world \<Rightarrow> js_error option \<times> world" where
  "writeFileSync p s w =
     (case map_of (nodes w) p of
        Some Dir \<Rightarrow> (Some EISDIR, logged (WriteFile p s) w)
      | _ \<Rightarrow> (None, logged (WriteFile p s) (w\<lparr>nodes := AList.update p (File s) (nodes w)\<rparr>)))"

text \<open>The directories above a path: what stands before each slash of it that follows a
  character other than a slash.\<close>

definition ancestors :: "string \<Rightarrow> string list" where
  "ancestors d =
     [take n d. n \<leftarrow> [1..<length d], d ! n = CHR ''/'' \<and> d ! (n - 1) \<noteq> CHR ''/'']"

definition isFile :: "filesystem \<Rightarrow> string \<Rightarrow> bool" where
  "isFile fs q = (case map_of fs q of Some (File s) \<Rightarrow> True | _ \<Rightarrow> False)"

definition makeDirs :: "string list \<Rightarrow> filesystem \<Rightarrow> filesystem" where
  "makeDirs ds fs =
     foldl (\<lambda>fs' d. if map_of fs' d = None then AList.update d Dir fs' else fs') fs ds"

text \<open>Making a directory with the directories above it: refused when one of those is a file
  (ENOTDIR) or when the path itself is one (EEXIST); what exists already is left alone.\<close>

definition mkdirs :: "string \<Rightarrow> filesystem \<Rightarrow> js_error + filesystem" where
  "mkdirs d fs =
     (if list_ex (isFile fs) (ancestors d) then Inl ENOTDIR
      else if isFile fs d then Inl EEXIST
      else Inr (makeDirs (ancestors d @ [d]) fs))"

text \<open>\<^verbatim>\<open>fsExtra.mkdirpSync(d)\<close>, which \<^verbatim>\<open>fsExtra.ensureDirSync(d)\<close> is another name of.\<close>

definition mkdirpSync :: "string \<Rightarrow> world \<Rightarrow> js_error option \<times> world" where
  "mkdirpSync d w =
     (case mkdirs d (nodes w) of
        Inl e \<Rightarrow> (Some e, logged (MkdirP d) w)
      | Inr fs \<Rightarrow> (None, logged (MkdirP d) (w\<lparr>nodes := fs\<rparr>)))"

definition ensureDirSync :: "string \<Rightarrow> world \<Rightarrow> js_error option \<times> world" where
  "ensureDirSync d w = mkdirpSync d w"

text \<open>\<^verbatim>\<open>fsExtra.emptyDirSync(d)\<close>: everything under the directory is removed; where there
  is no directory to list, the directory is made as above.\<close>

definition emptyDirSync :: "string \<Rightarrow> world \<Rightarrow> js_error option \<times> world" where
  "emptyDirSync d w =
     (case map_of (nodes w) d of
        Some Dir \<Rightarrow>
          (None, logged (EmptyDir d) (w\<lparr>nodes := filter (\<lambda>(q, n). \<not> under d q) (nodes w)\<rparr>))
      | _ \<Rightarrow>
          (case mkdirs d (nodes w) of
             Inl e \<Rightarrow> (Some e, logged (EmptyDir d) w)
           | Inr fs \<Rightarrow> (None, logged (EmptyDir d) (w\<lparr>nodes := fs\<rparr>))))"

text \<open>\<^verbatim>\<open>fsExtra.rmdirSync(d)\<close>: only an empty directory goes.\<close>

definition rmdirSync :: "string \<Rightarrow> world \<Rightarrow> js_error option \<times> world" where
  "rmdirSync d w =
     (case map_of (nodes w) d of
        None \<Rightarrow> (Some ENOENT, logged (Rmdir d) w)
      | Some (File s) \<Rightarrow> (Some ENOTDIR, logged (Rmdir d) w)
      | Some Dir \<Rightarrow>
          (if list_ex (\<lambda>(q, n). under d q) (nodes w) then (Some ENOTEMPTY, logged (Rmdir d) w)
           else (None, logged (Rmdir d) (w\<lparr>nodes := AList.delete d (nodes w)\<rparr>))))"

text \<open>
  A process started by \<^verbatim>\<open>exec\<close> is not part of this program: it is a parameter, a function
  from the command line and the file system to what the callback receives and the file
  system the process leaves. \<^verbatim>\<open>TOML.parse\<close> (\<open>None\<close> when it raises) and \<^verbatim>\<open>TOML.stringify\<close>
  are parameters as well.
\<close>

type_synonym exec_fn = "string \<Rightarrow> filesystem \<Rightarrow> exec_result \<times> filesystem"
type_synonym parse_fn = "string \<Rightarrow> jsval option"
type_synonym stringify_fn = "jsval \<Rightarrow> js_error + string"

definition execStep :: "exec_fn \<Rightarrow> string \<Rightarrow> world \<Rightarrow> exec_result \<times> world" where
  "execStep exec cmd w =
     (case exec cmd (nodes w) of
        (r, fs') \<Rightarrow> (r, logged (Exec cmd (nodes w) r) (w\<lparr>nodes := fs'\<rparr>)))"

section \<open>\<^verbatim>\<open>removeTomlEditableDependencies\<close>\<close>

text \<open>
  The whole function. The manifest's path is \<open>None\<close> for \<^verbatim>\<open>undefined\<close>. The result is the
  exception raised, if any, and the world as it is left. \<^verbatim>\<open>TOML.stringify\<close> is the argument
  of \<^verbatim>\<open>fs.writeFileSync\<close>, so it runs after \<^verbatim>\<open>fs.rmSync\<close>.
\<close>

definition removeTomlEditableDependencies ::
  "parse_fn \<Rightarrow> stringify_fn \<Rightarrow> string option \<Rightarrow> string option \<Rightarrow> world
    \<Rightarrow> js_error option \<times> world" where
  "removeTomlEditableDependencies parse stringify tomlFilePath projectRootPath w =
     (case tomlFilePath of
        None \<Rightarrow> (None, w)
      | Some tomlFile \<Rightarrow>
          (if tomlFile = [] \<or> length tomlFile < 2 then (None, w)
           else case readFileSync tomlFile w of
             (Inl e, w1) \<Rightarrow> (Some e, w1)
           | (Inr tomlFileStringContents, w1) \<Rightarrow>
               (case parse tomlFileStringContents of
                  None \<Rightarrow> (Some TomlError, w1)
                | Some tomlFileContents \<Rightarrow>
                    (case rewriteManifest tomlFile projectRootPath tomlFileContents of
                       Inl e \<Rightarrow> (Some e, w1)
                     | Inr rewritten \<Rightarrow>
                         (case rmSync tomlFile False w1 of
                            (Some e, w2) \<Rightarrow> (Some e, w2)
                          | (None, w2) \<Rightarrow>
                              (case stringify rewritten of
                                 Inl e \<Rightarrow> (Some e, w2)
                               | Inr text \<Rightarrow> writeFileSync tomlFile text w2))))))"

section \<open>The pipeline\<close>

text \<open>
  What a call of an entry point comes to: it returns \<^verbatim>\<open>undefined\<close> at the gate, raises
  before a promise exists, or returns a promise that is fulfilled or rejected. A promise is
  rejected with no reason (\<^verbatim>\<open>reject()\<close>), with the text of the standard error
  (\<^verbatim>\<open>reject(stderr)\<close>), or with the exception a \<^verbatim>\<open>then\<close> callback raised.
\<close>

datatype reason = NoReason | Stderr string | Raised js_error

datatype outcome = Skipped | Threw js_error | Resolved | Rejected reason

record options =
  dockerBuildPoetryMonorepo :: bool
  dockerImage :: string

text \<open>The command lines, as the template strings build them.\<close>

definition copyCmd :: "string \<Rightarrow> string \<Rightarrow> string" where
  "copyCmd serverlessMonorepoPath bindPath =
     ''rsync -rav --progress '' @ serverlessMonorepoPath @ ''/ '' @ bindPath @
     '' --exclude node_modules --exclude .venv --exclude poetry.lock --exclude .git''"

definition findCmd :: "string \<Rightarrow> string" where
  "findCmd bindPath =
     ''find '' @ bindPath @ '' -name '' @ [CHR 0x22] @ ''pyproject.toml'' @ [CHR 0x22]"

definition dockerCmd :: "string \<Rightarrow> string \<Rightarrow> string \<Rightarrow> string" where
  "dockerCmd bindPath apiDirName imageName =
     ''docker run --rm -v '' @ bindPath @ '':/var/task:z -w /var/task/'' @ apiDirName @
     '' '' @ imageName @ '' poetry install --no-dev''"

definition collectCmd :: "string \<Rightarrow> string \<Rightarrow> string \<Rightarrow> string" where
  "collectCmd bindPath apiDirName serverlessRequirementsZipPath =
     ''rsync -rav --progress '' @
     (bindPath @ ''/'' @ apiDirName @ ''/.venv/lib/python3.9/site-packages/'') @ '' '' @
     serverlessRequirementsZipPath @
     '' --exclude pip* --exclude setuptools* --exclude wheel* --exclude *.pth'' @
     '' --exclude *.virtualenv --exclude __pycache__ --exclude _distutils_hack'' @
     '' --exclude pkg_resources --exclude _virtualenv.py''"

text \<open>Lines 80 to 84: every line of the output of \<^verbatim>\<open>find\<close> is rewritten with the bind
  path for project root; an exception ends the loop.\<close>

fun rewriteLocated ::
  "parse_fn \<Rightarrow> stringify_fn \<Rightarrow> string \<Rightarrow> string list \<Rightarrow> world \<Rightarrow> js_error option \<times> world" where
  "rewriteLocated parse stringify bindPath [] w = (None, w)"
| "rewriteLocated parse stringify bindPath (p # ps) w =
     (case removeTomlEditableDependencies parse stringify (Some p) (Some bindPath) w of
        (Some e, w') \<Rightarrow> (Some e, w')
      | (None, w') \<Rightarrow> rewriteLocated parse stringify bindPath ps w')"

text \<open>Lines 121 to 127, the last \<^verbatim>\<open>then\<close>: the bind path is emptied and removed.\<close>

definition cleanupBindPath :: "string \<Rightarrow> world \<Rightarrow> outcome \<times> world" where
  "cleanupBindPath bindPath w =
     (case emptyDirSync bindPath w of
        (Some e, w1) \<Rightarrow> (Rejected (Raised e), w1)
      | (None, w1) \<Rightarrow>
          (case rmdirSync bindPath w1 of
             (Some e, w2) \<Rightarrow> (Rejected (Raised e), w2)
           | (None, w2) \<Rightarrow> (Resolved, w2)))"

text \<open>Lines 56 to 127, the chain of promises: each \<^verbatim>\<open>then\<close> runs only when the promise
  before it is fulfilled, and no \<^verbatim>\<open>catch\<close> or \<^verbatim>\<open>finally\<close> follows. The calls of
  \<^verbatim>\<open>this.serverless.cli.log\<close> print a message and change nothing; they are left out.\<close>

definition buildChain ::
  "exec_fn \<Rightarrow> parse_fn \<Rightarrow> stringify_fn \<Rightarrow> options \<Rightarrow> string \<Rightarrow> string \<Rightarrow> world
    \<Rightarrow> outcome \<times> world" where
  "buildChain exec parse stringify opts servicePath bindPath w =
     (let serverlessMonorepoPath = path_dirname servicePath;
          serverlessRequirementsZipPath = path_join [servicePath, ''.serverless'', ''requirements''];
          bindPathApiDir = path_join [bindPath, path_basename servicePath];
          apiDirName = path_basename servicePath;
          tomlFilePath = path_join [bindPathApiDir, ''pyproject.toml'']
      in case execStep exec (copyCmd serverlessMonorepoPath bindPath) w of (copied, w1) \<Rightarrow>
         if err copied then (Rejected NoReason, w1)
         else case removeTomlEditableDependencies parse stringify (Some tomlFilePath) None w1 of
           (Some e, w2) \<Rightarrow> (Rejected (Raised e), w2)
         | (None, w2) \<Rightarrow>
         case execStep exec (findCmd bindPath) w2 of (found, w3) \<Rightarrow>
         if err found then (Rejected NoReason, w3)
         else case (if stdout found \<noteq> [] \<and> length (stdout found) > 0
                    then rewriteLocated parse stringify bindPath
                           (split_on CHR 0x0A (stdout found)) w3
                    else (None, w3)) of
           (Some e, w4) \<Rightarrow> (Rejected (Raised e), w4)
         | (None, w4) \<Rightarrow>
         case execStep exec (dockerCmd bindPath apiDirName (dockerImage opts)) w4 of
           (built, w5) \<Rightarrow>
         if err built then (Rejected NoReason, w5)
         else case execStep exec
                     (collectCmd bindPath apiDirName serverlessRequirementsZipPath) w5 of
           (collected, w6) \<Rightarrow>
         if err collected then (Rejected NoReason, w6)
         else cleanupBindPath bindPath w6)"

text \<open>
  \<^verbatim>\<open>buildDockerPoetryMonorepo\<close>. The bind path is what
  \<^verbatim>\<open>dockerPathForWin(getRequirementsWorkingPath(v4(), ...))\<close> gives: a fresh identifier and
  two functions of \<^verbatim>\<open>./shared\<close>, so it is a parameter here. The calls of lines 36 to 49 run
  before the promise is made; an exception there is raised to the caller.
\<close>

definition buildDockerPoetryMonorepo ::
  "exec_fn \<Rightarrow> parse_fn \<Rightarrow> stringify_fn \<Rightarrow> options \<Rightarrow> string \<Rightarrow> string \<Rightarrow> world
    \<Rightarrow> outcome \<times> world" where
  "buildDockerPoetryMonorepo exec parse stringify opts servicePath bindPath w =
     (if \<not> dockerBuildPoetryMonorepo opts then (Skipped, w)
      else
        let serverlessRequirementsZipPath = path_join [servicePath, ''.serverless'', ''requirements'']
        in case mkdirpSync bindPath w of
             (Some e, w1) \<Rightarrow> (Threw e, w1)
           | (None, w1) \<Rightarrow>
         case ensureDirSync serverlessRequirementsZipPath w1 of
             (Some e, w2) \<Rightarrow> (Threw e, w2)
           | (None, w2) \<Rightarrow>
         case emptyDirSync serverlessRequirementsZipPath w2 of
             (Some e, w3) \<Rightarrow> (Threw e, w3)
           | (None, w3) \<Rightarrow>
         case emptyDirSync bindPath w3 of
             (Some e, w4) \<Rightarrow> (Threw e, w4)
           | (None, w4) \<Rightarrow> buildChain exec parse stringify opts servicePath bindPath w4)"

section \<open>Packaging\<close>

definition zipPath :: "string \<Rightarrow> string" where
  "zipPath servicePath =
     path_join [servicePath, ''.serverless''] @ ''/'' @ path_basename servicePath @ ''.zip''"

definition zipCmd :: "string \<Rightarrow> string" where
  "zipCmd servicePath =
     ''cd '' @ path_join [servicePath, ''.serverless'', ''requirements''] @ ''; zip -r ../'' @
     path_basename servicePath @ ''.zip ./*''"

text \<open>\<^verbatim>\<open>zipMonoRepoDeps\<close>: the archive is removed (\<^verbatim>\<open>force\<close> set), then \<^verbatim>\<open>zip\<close> runs.\<close>

definition zipMonoRepoDeps :: "exec_fn \<Rightarrow> options \<Rightarrow> string \<Rightarrow> world \<Rightarrow> outcome \<times> world" where
  "zipMonoRepoDeps exec opts servicePath w =
     (if \<not> dockerBuildPoetryMonorepo opts then (Skipped, w)
      else case rmSync (zipPath servicePath) True w of
        (Some e, w1) \<Rightarrow> (Threw e, w1)
      | (None, w1) \<Rightarrow>
          (case execStep exec (zipCmd servicePath) w1 of (zipped, w2) \<Rightarrow>
             if err zipped then (Rejected (Stderr (stderr zipped)), w2) else (Resolved, w2)))"

section \<open>The manifest with only \<^verbatim>\<open>dev-dependencies\<close> removed\<close>

text \<open>
  What the specification calls a no-op except for the removal of the dev-dependency table:
  the manifest with \<^verbatim>\<open>dev-dependencies\<close> taken out of \<^verbatim>\<open>tool.poetry\<close> and every other
  property as it was, in its place.
\<close>

definition dropDevDependencies :: "jsval \<Rightarrow> jsval" where
  "dropDevDependencies doc =
     (case getProp doc ''tool'' of
        None \<Rightarrow> doc
      | Some tool \<Rightarrow>
          (case getProp tool ''poetry'' of
             None \<Rightarrow> doc
           | Some poetry \<Rightarrow>
               updateProp doc ''tool''
                 (updateProp tool ''poetry'' (deleteProp poetry ''dev-dependencies''))))"

section \<open>Words of the claims\<close>



text \<open>A dependency is settled when a second rewrite has no path to resolve in it: it is no
  table, or its \<^verbatim>\<open>path\<close> is no string in which \<^verbatim>\<open>..\<close> occurs.\<close>

definition pathSettled :: "jsval \<Rightarrow> bool" where
  "pathSettled dependency =
     (case dependency of
        JObj dep \<Rightarrow>
          (case map_of dep ''path'' of
             Some (JStr p) \<Rightarrow> \<not> indexOf p ''..'' > - 1
           | _ \<Rightarrow> True)
      | _ \<Rightarrow> True)"

definition pathsSettled :: "jsval \<Rightarrow> bool" where
  "pathsSettled doc =
     (case getPath doc [''tool'', ''poetry'', ''dependencies''] of
        Some (JObj deps) \<Rightarrow> list_all pathSettled (map snd deps)
      | Some (JArr vs) \<Rightarrow> list_all pathSettled vs
      | _ \<Rightarrow> True)"

text \<open>
  Two manifests are the same up to the order of the properties when they differ at most in
  the order in which tables list their properties: tables have the same property names, each
  name once, and the same values up to order under each name; arrays have the same length
  and the same values up to order in each place; any other value is the same value.
\<close>

fun sameUpToOrder :: "jsval \<Rightarrow> jsval \<Rightarrow> bool" where
  "sameUpToOrder (JObj kvs) (JObj kvs') =
     (distinct (map fst kvs) \<and> distinct (map fst kvs') \<and>
      set (map fst kvs) = set (map fst kvs') \<and>
      (\<forall>(k, v) \<in> set kvs. case map_of kvs' k of
                              None \<Rightarrow> False
                            | Some v' \<Rightarrow> sameUpToOrder v v'))"
| "sameUpToOrder (JArr vs) (JArr vs') = list_all2 sameUpToOrder vs vs'"
| "sameUpToOrder v v' = (v = v')"

text \<open>
  A dependency in which the callback of the loop finds nothing to do: it is no table, or it
  is a table whose \<^verbatim>\<open>develop\<close> is not truthy and, when a project root is supplied, whose
  \<^verbatim>\<open>path\<close> is not truthy, or is a string in which \<^verbatim>\<open>..\<close> does not occur, or is an array
  of which \<^verbatim>\<open>..\<close> is no element.
\<close>

definition inert :: "string option \<Rightarrow> jsval \<Rightarrow> bool" where
  "inert projectRootPath dependency =
     (case dependency of
        JObj kvs \<Rightarrow>
          \<not> truthy (map_of kvs ''develop'') \<and>
          (projectRootPath = None \<or> projectRootPath = Some [] \<or>
           \<not> truthy (map_of kvs ''path'') \<or>
           (case map_of kvs ''path'' of
              Some (JStr s) \<Rightarrow> \<not> indexOf s ''..'' > - 1
            | Some (JArr vs) \<Rightarrow> JStr ''..'' \<notin> set vs
            | _ \<Rightarrow> False))
      | _ \<Rightarrow> True)"




section \<open>Example inputs\<close>

definition newline :: string where
  "newline = [CHR 0x0A]"

definition quoted :: "string \<Rightarrow> string" where
  "quoted s = [CHR 0x22] @ s @ [CHR 0x22]"

definition unlines :: "string list \<Rightarrow> string" where
  "unlines ls = concat (map (\<lambda>l. l @ newline) ls)"

text \<open>A manifest of an API project that links a shared library next to it: as the developer
  wrote it, after the rewrite without a project root, and after the rewrite with one.\<close>

definition exampleManifest :: jsval where
  "exampleManifest =
     JObj [(''tool'', JObj [(''poetry'', JObj
       [(''name'', JStr ''api''),
        (''dependencies'', JObj
           [(''python'', JStr ''^3.9''),
            (''sibling'', JObj [(''path'', JStr ''../sibling''), (''develop'', JBool True)])]),
        (''dev-dependencies'', JObj [(''pytest'', JStr ''^6.2'')])])]),
      (''build-system'', JObj [(''requires'', JArr [JStr ''poetry-core>=1.0.0''])])]"

definition exampleUnlinked :: jsval where
  "exampleUnlinked =
     JObj [(''tool'', JObj [(''poetry'', JObj
       [(''name'', JStr ''api''),
        (''dependencies'', JObj
           [(''python'', JStr ''^3.9''),
            (''sibling'', JObj [(''path'', JStr ''../sibling'')])])])]),
      (''build-system'', JObj [(''requires'', JArr [JStr ''poetry-core>=1.0.0''])])]"

definition exampleRewritten :: jsval where
  "exampleRewritten =
     JObj [(''tool'', JObj [(''poetry'', JObj
       [(''name'', JStr ''api''),
        (''dependencies'', JObj
           [(''python'', JStr ''^3.9''),
            (''sibling'', JObj [(''path'', JStr ''/var/task/sibling'')])])])]),
      (''build-system'', JObj [(''requires'', JArr [JStr ''poetry-core>=1.0.0''])])]"

definition exampleText :: string where
  "exampleText = unlines
     [''[tool.poetry]'',
      ''name = '' @ quoted ''api'',
      ''[tool.poetry.dependencies]'',
      ''python = '' @ quoted ''^3.9'',
      ''sibling = {path = '' @ quoted ''../sibling'' @ '', develop = true}'',
      ''[tool.poetry.dev-dependencies]'',
      ''pytest = '' @ quoted ''^6.2'',
      ''[build-system]'',
      ''requires = ['' @ quoted ''poetry-core>=1.0.0'' @ '']'']"

definition exampleUnlinkedText :: string where
  "exampleUnlinkedText = unlines
     [''[tool.poetry]'',
      ''name = '' @ quoted ''api'',
      ''[tool.poetry.dependencies]'',
      ''python = '' @ quoted ''^3.9'',
      ''[tool.poetry.dependencies.sibling]'',
      ''path = '' @ quoted ''../sibling'',
      ''[build-system]'',
      ''requires = [ '' @ quoted ''poetry-core>=1.0.0'' @ '' ]'']"

definition exampleRewrittenText :: string where
  "exampleRewrittenText = unlines
     [''[tool.poetry]'',
      ''name = '' @ quoted ''api'',
      ''[tool.poetry.dependencies]'',
      ''python = '' @ quoted ''^3.9'',
      ''[tool.poetry.dependencies.sibling]'',
      ''path = '' @ quoted ''/var/task/sibling'',
      ''[build-system]'',
      ''requires = [ '' @ quoted ''poetry-core>=1.0.0'' @ '' ]'']"

text \<open>A \<^verbatim>\<open>pyproject.toml\<close> that only configures a formatter: it has no \<^verbatim>\<open>tool.poetry\<close>.
  The number is 88 as a double.\<close>

definition formatterManifest :: jsval where
  "formatterManifest =
     JObj [(''tool'', JObj [(''black'', JObj [(''line-length'', JNum 0x4056000000000000)])])]"

definition formatterText :: string where
  "formatterText = unlines [''[tool.black]'', ''line-length = 88'']"

text \<open>The TOML library on the texts above, as a table: what \<^verbatim>\<open>TOML.parse\<close> reads from them
  and a text \<^verbatim>\<open>TOML.stringify\<close> gives for the manifests. No theorem depends on the layout
  of the texts.\<close>

definition exampleParse :: parse_fn where
  "exampleParse contents =
     (if contents = exampleText then Some exampleManifest
      else if contents = exampleUnlinkedText then Some exampleUnlinked
      else if contents = exampleRewrittenText then Some exampleRewritten
      else if contents = formatterText then Some formatterManifest
      else None)"

definition exampleStringify :: stringify_fn where
  "exampleStringify doc =
     (if doc = exampleUnlinked then Inr exampleUnlinkedText
      else if doc = exampleRewritten then Inr exampleRewrittenText
      else Inl TypeError)"

text \<open>
  The same project with the library written before the version of Python. The rewritten
  manifest lists the library first; \<^verbatim>\<open>TOML.stringify\<close> prints the plain values of a table
  before its sub-tables, so the text is \<^const>\<open>exampleRewrittenText\<close>, from which
  \<^verbatim>\<open>TOML.parse\<close> reads \<^const>\<open>exampleRewritten\<close>, with the library last.
\<close>

definition linkedFirstManifest :: jsval where
  "linkedFirstManifest =
     JObj [(''tool'', JObj [(''poetry'', JObj
       [(''name'', JStr ''api''),
        (''dependencies'', JObj
           [(''sibling'', JObj [(''path'', JStr ''../sibling''), (''develop'', JBool True)]),
            (''python'', JStr ''^3.9'')])])]),
      (''build-system'', JObj [(''requires'', JArr [JStr ''poetry-core>=1.0.0''])])]"

definition linkedFirstRewritten :: jsval where
  "linkedFirstRewritten =
     JObj [(''tool'', JObj [(''poetry'', JObj
       [(''name'', JStr ''api''),
        (''dependencies'', JObj
           [(''sibling'', JObj [(''path'', JStr ''/var/task/sibling'')]),
            (''python'', JStr ''^3.9'')])])]),
      (''build-system'', JObj [(''requires'', JArr [JStr ''poetry-core>=1.0.0''])])]"

definition linkedFirstText :: string where
  "linkedFirstText = unlines
     [''[tool.poetry]'',
      ''name = '' @ quoted ''api'',
      ''[tool.poetry.dependencies]'',
      ''sibling = {path = '' @ quoted ''../sibling'' @ '', develop = true}'',
      ''python = '' @ quoted ''^3.9'',
      ''[build-system]'',
      ''requires = ['' @ quoted ''poetry-core>=1.0.0'' @ '']'']"

definition orderingParse :: parse_fn where
  "orderingParse contents =
     (if contents = linkedFirstText then Some linkedFirstManifest else exampleParse contents)"

definition orderingStringify :: stringify_fn where
  "orderingStringify doc =
     (if doc = linkedFirstRewritten then Inr exampleRewrittenText else exampleStringify doc)"

text \<open>A run of the pipeline: the service is \<^verbatim>\<open>/home/dev/mono/api\<close> and the bind path
  \<^verbatim>\<open>/host/stage\<close>, so the root manifest is staged at \<^verbatim>\<open>/host/stage/api/pyproject.toml\<close>.\<close>

definition exampleOptions :: options where
  "exampleOptions =
     \<lparr>dockerBuildPoetryMonorepo = True, dockerImage = ''tgrowneyhydra/python-builder:latest''\<rparr>"

definition exampleWorld :: world where
  "exampleWorld =
     \<lparr>nodes = [(''/home'', Dir), (''/home/dev'', Dir), (''/home/dev/mono'', Dir),
               (''/home/dev/mono/api'', Dir),
               (''/home/dev/mono/api/pyproject.toml'', File exampleText),
               (''/home/dev/mono/api/.serverless'', Dir),
               (''/home/dev/mono/api/.serverless/api.zip'', File ''PK-previous-archive'')],
      trace = []\<rparr>"

text \<open>The same project where \<^verbatim>\<open>.serverless\<close> is a file and no directory.\<close>

definition blockedWorld :: world where
  "blockedWorld =
     \<lparr>nodes = [(''/home'', Dir), (''/home/dev'', Dir), (''/home/dev/mono'', Dir),
               (''/home/dev/mono/api'', Dir),
               (''/home/dev/mono/api/pyproject.toml'', File exampleText),
               (''/home/dev/mono/api/.serverless'', File [])],
      trace = []\<rparr>"

text \<open>Processes that all succeed: the copy stages the project with its manifest, \<^verbatim>\<open>find\<close>
  prints the path of the manifest, the others change nothing.\<close>

definition exampleExec :: exec_fn where
  "exampleExec cmd fs =
     (if cmd = copyCmd ''/home/dev/mono'' ''/host/stage''
      then (ExecResult False [] [],
            AList.update ''/host/stage/api/pyproject.toml'' (File exampleText)
              (AList.update ''/host/stage/api'' Dir fs))
      else if cmd = findCmd ''/host/stage''
      then (ExecResult False (''/host/stage/api/pyproject.toml'' @ newline) [], fs)
      else (ExecResult False [] [], fs))"

text \<open>Processes that all fail and change nothing.\<close>

definition failingExec :: exec_fn where
  "failingExec cmd fs = (ExecResult True [] ''No such file or directory'', fs)"


text \<open>Manifests with one path dependency each: a library two levels up, outside the
  monorepo; a vendored library in a directory whose name has two dots in a row; and a
  sibling library with such a name.\<close>

definition manifestWithPath :: "string \<Rightarrow> jsval" where
  "manifestWithPath p =
     JObj [(''tool'', JObj [(''poetry'', JObj
       [(''name'', JStr ''api''),
        (''dependencies'', JObj
           [(''python'', JStr ''^3.9''),
            (''lib'', JObj [(''path'', JStr p)])])])])]"


definition vendoredManifest :: jsval where
  "vendoredManifest = manifestWithPath ''./vendor/my..lib''"

definition dottedManifest :: jsval where
  "dottedManifest = manifestWithPath ''../my..lib''"


text \<open>A manifest whose dependencies are all version strings, and two texts of it that differ
  in a comment: \<^verbatim>\<open>TOML.parse\<close> reads the same manifest from both.\<close>

definition plainManifest :: jsval where
  "plainManifest =
     JObj [(''tool'', JObj [(''poetry'', JObj
       [(''dependencies'', JObj [(''python'', JStr ''^3.9''), (''boto3'', JStr ''^1.17'')])])])]"

definition plainText :: string where
  "plainText = unlines
     [''[tool.poetry.dependencies]'',
      ''python = '' @ quoted ''^3.9'',
      ''boto3 = '' @ quoted ''^1.17'']"

definition commentedText :: string where
  "commentedText = unlines
     [''[tool.poetry.dependencies]'',
      ''python = '' @ quoted ''^3.9'' @ '' # the runtime of the function'',
      ''boto3 = '' @ quoted ''^1.17'']"

definition commentParse :: parse_fn where
  "commentParse contents =
     (if contents = plainText \<or> contents = commentedText then Some plainManifest else None)"

definition plainStringify :: stringify_fn where
  "plainStringify doc = (if doc = plainManifest then Inr plainText else Inl TypeError)"

text \<open>What is at the path of a manifest after \<^verbatim>\<open>removeTomlEditableDependencies\<close> ran on a
  file system that holds the manifest with the given contents.\<close>

definition manifestAfter ::
  "parse_fn \<Rightarrow> stringify_fn \<Rightarrow> string option \<Rightarrow> string \<Rightarrow> node option" where
  "manifestAfter parse stringify projectRootPath contents =
     map_of (nodes (snd (removeTomlEditableDependencies parse stringify
        (Some ''/host/stage/api/pyproject.toml'') projectRootPath
        \<lparr>nodes = [(''/host/stage/api/pyproject.toml'', File contents)], trace = []\<rparr>)))
       ''/host/stage/api/pyproject.toml''"

text \<open>A text for the manifests with one path dependency, and the TOML library on the three
  of them that the rewrites of \<^const>\<open>dottedManifest\<close> go through.\<close>

definition textWithPath :: "string \<Rightarrow> string" where
  "textWithPath p = unlines
     [''[tool.poetry]'',
      ''name = '' @ quoted ''api'',
      ''[tool.poetry.dependencies]'',
      ''python = '' @ quoted ''^3.9'',
      ''[tool.poetry.dependencies.lib]'',
      ''path = '' @ quoted p]"

definition dottedPaths :: "string list" where
  "dottedPaths = [''../my..lib'', ''/var/task/my..lib'', ''/var/task/api/var/task/my..lib'']"

definition dottedParse :: parse_fn where
  "dottedParse contents =
     map_option manifestWithPath (find (\<lambda>p. contents = textWithPath p) dottedPaths)"

definition dottedStringify :: stringify_fn where
  "dottedStringify doc =
     (case find (\<lambda>p. doc = manifestWithPath p) dottedPaths of
        None \<Rightarrow> Inl TypeError
      | Some p \<Rightarrow> Inr (textWithPath p))"

section \<open>Facts about strings and paths\<close>

lemma indexOf_from_absent:
  "(indexOf_from i pat s = - 1) = (\<not> (\<exists>a b. s = a @ pat @ b))"
proof (induction s arbitrary: i)
  case Nil
  then show ?case by auto
next
  case (Cons c cs)
  show ?case
  proof (cases "prefix pat (c # cs)")
    case True
    then obtain b where "c # cs = pat @ b" by (auto simp: prefix_def)
    then have "\<exists>a b. c # cs = a @ pat @ b" by (metis append_Nil)
    with True show ?thesis by simp
  next
    case False
    have "(\<exists>a b. c # cs = a @ pat @ b) = (\<exists>a b. cs = a @ pat @ b)"
    proof
      assume "\<exists>a b. c # cs = a @ pat @ b"
      then obtain a b where ab: "c # cs = a @ pat @ b" by blast
      show "\<exists>a b. cs = a @ pat @ b"
      proof (cases a)
        case Nil
        with ab have "prefix pat (c # cs)" by (simp add: prefix_def)
        with False show ?thesis by simp
      next
        case (Cons x a')
        with ab have "cs = a' @ pat @ b" by simp
        then show ?thesis by blast
      qed
    next
      assume "\<exists>a b. cs = a @ pat @ b"
      then obtain a b where "cs = a @ pat @ b" by blast
      then have "c # cs = (c # a) @ pat @ b" by simp
      then show "\<exists>a b. c # cs = a @ pat @ b" by blast
    qed
    with False Cons.IH [of "Suc i"] show ?thesis by simp
  qed
qed

lemma indexOf_from_range: "indexOf_from i pat s = - 1 \<or> int i \<le> indexOf_from i pat s"
proof (induction s arbitrary: i)
  case Nil
  then show ?case by simp
next
  case (Cons c cs)
  from Cons [of "Suc i"] show ?case by auto
qed

text \<open>\<^verbatim>\<open>s.indexOf(pat) > -1\<close> says that \<open>pat\<close> occurs in \<open>s\<close>.\<close>

lemma indexOf_found: "(indexOf s pat > - 1) = (\<exists>a b. s = a @ pat @ b)"
proof -
  have "indexOf_from 0 pat s = - 1 \<or> 0 \<le> indexOf_from 0 pat s"
    using indexOf_from_range [of 0 pat s] by simp
  then have "(indexOf_from 0 pat s > - 1) = (indexOf_from 0 pat s \<noteq> - 1)" by auto
  then show ?thesis by (simp add: indexOf_def indexOf_from_absent)
qed

lemma path_normalize_nonempty: "path_normalize p \<noteq> []"
  by (auto simp: path_normalize_def Let_def)

lemma path_join_nonempty: "path_join args \<noteq> []"
  by (simp add: path_join_def Let_def path_normalize_nonempty)













section \<open>Facts about the rewriter\<close>

lemma forEachDependency_all2:
  "forEachDependency p r vs = Inr vs' \<Longrightarrow>
   list_all2 (\<lambda>v v'. rewriteDependency p r v = Inr v') vs vs'"
proof (induction vs arbitrary: vs')
  case Nil
  then show ?case by simp
next
  case (Cons d ds)
  then show ?case by (auto split: sum.splits)
qed

lemma map_of_zip_related:
  "list_all2 R vs vs' \<Longrightarrow> length ks = length vs \<Longrightarrow> map_of (zip ks vs) k = Some v \<Longrightarrow>
   \<exists>v'. map_of (zip ks vs') k = Some v' \<and> R v v'"
proof (induction vs vs' arbitrary: ks rule: list_all2_induct)
  case Nil
  then show ?case by simp
next
  case (Cons x xs y ys)
  then show ?case by (cases ks) (auto split: if_splits)
qed

lemma map_of_zip_related_rev:
  "list_all2 R vs vs' \<Longrightarrow> length ks = length vs \<Longrightarrow> map_of (zip ks vs') k = Some v' \<Longrightarrow>
   \<exists>v. map_of (zip ks vs) k = Some v \<and> R v v'"
proof (induction vs vs' arbitrary: ks rule: list_all2_induct)
  case Nil
  then show ?case by simp
next
  case (Cons x xs y ys)
  then show ?case by (cases ks) (auto split: if_splits)
qed

text \<open>A table of dependencies keeps its names; each value is what the callback makes of it.\<close>

lemma rewriteDependencies_table:
  assumes "rewriteDependencies p r (JObj kvs) = Inr d"
  obtains kvs' where "d = JObj kvs'" and "map fst kvs' = map fst kvs"
    and "\<And>k v. map_of kvs k = Some v \<Longrightarrow>
           \<exists>v'. map_of kvs' k = Some v' \<and> rewriteDependency p r v = Inr v'"
    and "\<And>k v'. map_of kvs' k = Some v' \<Longrightarrow>
           \<exists>v. map_of kvs k = Some v \<and> rewriteDependency p r v = Inr v'"
proof -
  from assms obtain vs' where fe: "forEachDependency p r (map snd kvs) = Inr vs'"
    and d: "d = JObj (zip (map fst kvs) vs')"
    by (auto simp: rewriteDependencies_def map_sum_def split: sum.splits)
  have all2: "list_all2 (\<lambda>v v'. rewriteDependency p r v = Inr v') (map snd kvs) vs'"
    using fe by (rule forEachDependency_all2)
  then have len: "length vs' = length kvs" by (auto dest: list_all2_lengthD)
  have z: "zip (map fst kvs) (map snd kvs) = kvs" by (simp add: zip_map_fst_snd)
  show thesis
  proof (rule that [of "zip (map fst kvs) vs'"])
    show "d = JObj (zip (map fst kvs) vs')" by (rule d)
    show "map fst (zip (map fst kvs) vs') = map fst kvs" using len by simp
  next
    fix k v assume "map_of kvs k = Some v"
    then have "map_of (zip (map fst kvs) (map snd kvs)) k = Some v" by (simp add: z)
    from map_of_zip_related [OF all2 _ this]
    show "\<exists>v'. map_of (zip (map fst kvs) vs') k = Some v' \<and> rewriteDependency p r v = Inr v'"
      by simp
  next
    fix k v' assume "map_of (zip (map fst kvs) vs') k = Some v'"
    from map_of_zip_related_rev [OF all2 _ this]
    show "\<exists>v. map_of kvs k = Some v \<and> rewriteDependency p r v = Inr v'"
      by (simp add: z)
  qed
qed

text \<open>A rewrite that returns found the dependencies, rewrote them in their place and left
  no \<^verbatim>\<open>dev-dependencies\<close>.\<close>

lemma rewriteManifest_dependencies:
  assumes "rewriteManifest p r doc = Inr doc'"
  obtains deps deps' where
    "getPath doc [''tool'', ''poetry'', ''dependencies''] = Some deps"
    "rewriteDependencies p r deps = Inr deps'"
    "getPath doc' [''tool'', ''poetry'', ''dependencies''] = Some deps'"
    "getPath doc' [''tool'', ''poetry'', ''dev-dependencies''] = None"
  using assms
  by (auto simp: rewriteManifest_def getProp_def updateProp_def deleteProp_def
        update_conv' delete_conv' split: option.splits sum.splits jsval.splits)

lemma rewritePath_develop:
  "rewritePath p root dep = Inr dep' \<Longrightarrow> map_of dep' ''develop'' = map_of dep ''develop''"
  by (auto simp: rewritePath_def update_conv' split: if_splits option.splits jsval.splits)



lemma rewriteDependency_path_kept:
  assumes "rewriteDependency p r (JObj dep) = Inr v'"
    and "map_of dep ''path'' = Some (JStr s)"
    and "\<not> indexOf s ''..'' > - 1"
  shows "\<exists>dep'. v' = JObj dep' \<and> map_of dep' ''path'' = Some (JStr s)"
  using assms
  by (auto simp: rewriteDependency_def typeof_def Let_def map_sum_def rewritePath_def
        split: if_splits option.splits sum.splits)

lemma forEachDependency_not_objects:
  "\<forall>v \<in> set vs. typeof v \<noteq> ''object'' \<Longrightarrow> forEachDependency p r vs = Inr vs"
  by (induction vs) (auto simp: rewriteDependency_def)

lemma updateProp_same: "getProp v k = Some x \<Longrightarrow> updateProp v k x = v"
  by (auto simp: getProp_def updateProp_def update_triv split: jsval.splits)

lemma rewritePath_idem:
  assumes "rewritePath p root dep = Inr dep'"
    and "pathSettled (JObj dep')"
  shows "rewritePath p root dep' = Inr dep'"
  using assms
  by (auto simp: rewritePath_def pathSettled_def update_conv'
        split: if_splits option.splits jsval.splits)

lemma rewriteDependency_idem:
  assumes "rewriteDependency p r v = Inr v'"
    and "pathSettled v' \<or> r = None \<or> r = Some []"
  shows "rewriteDependency p r v' = Inr v'"
proof (cases v)
  case (JObj dep)
  let ?dep1 = "if truthy (map_of dep ''develop'') then AList.delete ''develop'' dep else dep"
  have d1: "\<not> truthy (map_of ?dep1 ''develop'')" by (simp add: delete_conv')
  show ?thesis
  proof (cases "\<exists>root. r = Some root \<and> root \<noteq> []")
    case False
    with assms(1) JObj have "v' = JObj ?dep1"
      by (auto simp: rewriteDependency_def typeof_def Let_def split: option.splits if_splits)
    with False d1 show ?thesis
      by (auto simp: rewriteDependency_def typeof_def Let_def split: option.splits)
  next
    case True
    then obtain root where r: "r = Some root" "root \<noteq> []" by blast
    with assms(1) JObj obtain dep' where v': "v' = JObj dep'"
      and rp: "rewritePath p root ?dep1 = Inr dep'"
      by (auto simp: rewriteDependency_def typeof_def Let_def map_sum_def
            split: sum.splits if_splits)
    from rp d1 have nd: "\<not> truthy (map_of dep' ''develop'')"
      by (simp add: rewritePath_develop)
    from assms(2) r v' have "pathSettled (JObj dep')" by simp
    from rewritePath_idem [OF rp this] nd r v' show ?thesis
      by (simp add: rewriteDependency_def typeof_def Let_def map_sum_def)
  qed
qed (use assms(1) in \<open>auto simp: rewriteDependency_def typeof_def\<close>)

lemma forEachDependency_idem:
  assumes "forEachDependency p r vs = Inr vs'"
    and "list_all pathSettled vs' \<or> r = None \<or> r = Some []"
  shows "forEachDependency p r vs' = Inr vs'"
  using assms
proof (induction vs arbitrary: vs')
  case Nil
  then show ?case by simp
next
  case (Cons d ds)
  from Cons.prems(1) obtain d' ds' where vs': "vs' = d' # ds'"
    and d': "rewriteDependency p r d = Inr d'"
    and ds': "forEachDependency p r ds = Inr ds'"
    by (auto split: sum.splits)
  from Cons.prems(2) vs' have "pathSettled d' \<or> r = None \<or> r = Some []"
    and "list_all pathSettled ds' \<or> r = None \<or> r = Some []"
    by auto
  with rewriteDependency_idem [OF d'] Cons.IH [OF ds'] vs' show ?case by simp
qed

lemma forEachDependency_length:
  "forEachDependency p r vs = Inr vs' \<Longrightarrow> length vs' = length vs"
  by (auto dest!: forEachDependency_all2 list_all2_lengthD)

lemma rewriteDependencies_idem:
  assumes "rewriteDependencies p r d = Inr d'"
    and "(case d' of JObj deps \<Rightarrow> list_all pathSettled (map snd deps)
          | JArr vs \<Rightarrow> list_all pathSettled vs | _ \<Rightarrow> True) \<or> r = None \<or> r = Some []"
  shows "rewriteDependencies p r d' = Inr d'"
proof (cases d)
  case (JObj kvs)
  with assms(1) obtain vs' where fe: "forEachDependency p r (map snd kvs) = Inr vs'"
    and d': "d' = JObj (zip (map fst kvs) vs')"
    by (auto simp: rewriteDependencies_def map_sum_def split: sum.splits)
  from forEachDependency_length [OF fe] have len: "length vs' = length kvs" by simp
  then have sn: "map snd (zip (map fst kvs) vs') = vs'"
    and ft: "map fst (zip (map fst kvs) vs') = map fst kvs" by simp_all
  from assms(2) d' sn have "list_all pathSettled vs' \<or> r = None \<or> r = Some []" by simp
  from forEachDependency_idem [OF fe this] d' sn ft show ?thesis
    by (simp add: rewriteDependencies_def)
next
  case (JArr vs)
  with assms(1) obtain vs' where fe: "forEachDependency p r vs = Inr vs'"
    and d': "d' = JArr vs'"
    by (auto simp: rewriteDependencies_def map_sum_def split: sum.splits)
  from assms(2) d' have "list_all pathSettled vs' \<or> r = None \<or> r = Some []" by simp
  from forEachDependency_idem [OF fe this] d' show ?thesis
    by (simp add: rewriteDependencies_def)
qed (use assms(1) in \<open>auto simp: rewriteDependencies_def\<close>)


text \<open>What a call that returns from a manifest it did not skip has done, and when a call
  does so.\<close>

lemma removeTomlEditableDependencies_returns:
  assumes "removeTomlEditableDependencies parse stringify (Some p) r w = (None, w')"
    and "2 \<le> length p"
  obtains contents doc doc' written where
    "map_of (nodes w) p = Some (File contents)" "parse contents = Some doc"
    "rewriteManifest p r doc = Inr doc'" "stringify doc' = Inr written"
    "w' = \<lparr>nodes = AList.update p (File written) (AList.delete p (nodes w)),
           trace = trace w @ [ReadFile p, RmFile p, WriteFile p written]\<rparr>"
proof -
  from assms obtain contents where c: "map_of (nodes w) p = Some (File contents)"
    by (auto simp: removeTomlEditableDependencies_def readFileSync_def
          split: option.splits node.splits if_splits)
  from assms c obtain doc where d: "parse contents = Some doc"
    by (auto simp: removeTomlEditableDependencies_def readFileSync_def
          split: option.splits if_splits)
  from assms c d obtain doc' where d': "rewriteManifest p r doc = Inr doc'"
    by (auto simp: removeTomlEditableDependencies_def readFileSync_def
          split: option.splits if_splits sum.splits)
  from assms c d d' obtain written where s: "stringify doc' = Inr written"
    by (auto simp: removeTomlEditableDependencies_def readFileSync_def rmSync_def logged_def
          split: option.splits if_splits sum.splits)
  from assms c d d' s have
    "w' = \<lparr>nodes = AList.update p (File written) (AList.delete p (nodes w)),
           trace = trace w @ [ReadFile p, RmFile p, WriteFile p written]\<rparr>"
    by (auto simp: removeTomlEditableDependencies_def readFileSync_def rmSync_def logged_def
          writeFileSync_def delete_conv' split: option.splits if_splits node.splits)
  with c d d' s show thesis by (rule that)
qed

lemma removeTomlEditableDependencies_run:
  assumes "2 \<le> length p"
    and "map_of (nodes w) p = Some (File contents)"
    and "parse contents = Some doc"
    and "rewriteManifest p r doc = Inr doc'"
    and "stringify doc' = Inr written"
  shows "removeTomlEditableDependencies parse stringify (Some p) r w =
           (None,
            \<lparr>nodes = AList.update p (File written) (AList.delete p (nodes w)),
             trace = trace w @ [ReadFile p, RmFile p, WriteFile p written]\<rparr>)"
  using assms
  by (auto simp: removeTomlEditableDependencies_def readFileSync_def rmSync_def
        writeFileSync_def logged_def delete_conv')

section \<open>The sibling library of the specification's example\<close>

lemma example_finalPath:
  "finalPath ''/host/stage/api/pyproject.toml'' ''/host/stage'' ''../sibling''
   = ''/var/task/sibling''"
  by code_simp

lemma example_dockerModulePath:
  "dockerModulePath ''/host/stage/api/pyproject.toml'' ''/host/stage'' = ''/var/task/api''"
  by code_simp

lemma example_indexOf: "indexOf ''../sibling'' ''..'' > - 1"
  by code_simp

lemma rewriteDependency_sibling:
  assumes "map_of dep ''develop'' = Some (JBool True)"
    and "map_of dep ''path'' = Some (JStr ''../sibling'')"
  shows "rewriteDependency ''/host/stage/api/pyproject.toml'' (Some ''/host/stage'') (JObj dep)
         = Inr (JObj (AList.update ''path'' (JStr ''/var/task/sibling'')
                        (AList.delete ''develop'' dep)))"
  using assms example_indexOf
  by (simp add: rewriteDependency_def typeof_def rewritePath_def delete_conv' map_sum_def
        example_finalPath)

text \<open>
  Claim C1. The manifest at \<^verbatim>\<open>/host/stage/api/pyproject.toml\<close> is rewritten with the project
  root \<^verbatim>\<open>/host/stage\<close>. A dependency of it that is a table with \<^verbatim>\<open>develop = true\<close> and
  \<^verbatim>\<open>path = "../sibling"\<close>, whatever its name and its other fields, is in the rewritten
  manifest a table with no \<^verbatim>\<open>develop\<close> and with \<^verbatim>\<open>path = "/var/task/sibling"\<close>: the
  directory of the manifest on the side of the container is \<^verbatim>\<open>/var/task/api\<close>, and the path
  is resolved against it.
\<close>

theorem sibling_path_rewritten:
  assumes "rewriteManifest ''/host/stage/api/pyproject.toml'' (Some ''/host/stage'') doc = Inr doc'"
    and "getPath doc [''tool'', ''poetry'', ''dependencies''] = Some (JObj deps)"
    and "map_of deps name = Some (JObj dep)"
    and "map_of dep ''develop'' = Some (JBool True)"
    and "map_of dep ''path'' = Some (JStr ''../sibling'')"
  shows "dockerModulePath ''/host/stage/api/pyproject.toml'' ''/host/stage'' = ''/var/task/api'' \<and>
         path_join [''/var/task/api'', ''../sibling''] = ''/var/task/sibling'' \<and>
         (\<exists>deps' dep'.
            getPath doc' [''tool'', ''poetry'', ''dependencies''] = Some (JObj deps') \<and>
            map_of deps' name = Some (JObj dep') \<and>
            map_of dep' ''develop'' = None \<and>
            map_of dep' ''path'' = Some (JStr ''/var/task/sibling''))"
proof -
  have resolved: "path_join [''/var/task/api'', ''../sibling''] = ''/var/task/sibling''"
    by code_simp
  let ?p = "''/host/stage/api/pyproject.toml''" and ?r = "Some ''/host/stage''"
  from assms(1) obtain ds ds' where
    ds: "getPath doc [''tool'', ''poetry'', ''dependencies''] = Some ds"
    and rw: "rewriteDependencies ?p ?r ds = Inr ds'"
    and ds': "getPath doc' [''tool'', ''poetry'', ''dependencies''] = Some ds'"
    by (rule rewriteManifest_dependencies)
  from ds assms(2) have "ds = JObj deps" by simp
  with rw obtain deps' where d': "ds' = JObj deps'"
    and fwd: "\<And>k v. map_of deps k = Some v \<Longrightarrow>
           \<exists>v'. map_of deps' k = Some v' \<and> rewriteDependency ?p ?r v = Inr v'"
    by (auto elim: rewriteDependencies_table)
  from fwd [OF assms(3)] obtain v' where
    v': "map_of deps' name = Some v'" "rewriteDependency ?p ?r (JObj dep) = Inr v'"
    by blast
  let ?dep' = "AList.update ''path'' (JStr ''/var/task/sibling'') (AList.delete ''develop'' dep)"
  from v'(2) rewriteDependency_sibling [OF assms(4,5)] have "v' = JObj ?dep'" by simp
  moreover have "map_of ?dep' ''develop'' = None" by (simp add: update_conv' delete_conv')
  moreover have "map_of ?dep' ''path'' = Some (JStr ''/var/task/sibling'')"
    by (simp add: update_conv')
  ultimately have "\<exists>deps' dep'.
            getPath doc' [''tool'', ''poetry'', ''dependencies''] = Some (JObj deps') \<and>
            map_of deps' name = Some (JObj dep') \<and>
            map_of dep' ''develop'' = None \<and>
            map_of dep' ''path'' = Some (JStr ''/var/task/sibling'')"
    using ds' d' v'(1) by blast
  with example_dockerModulePath resolved show ?thesis by blast
qed

theorem sibling_path_rewritten_witness:
  "rewriteManifest ''/host/stage/api/pyproject.toml'' (Some ''/host/stage'') exampleManifest
     = Inr exampleRewritten \<and>
   (\<exists>deps' dep'.
      getPath exampleRewritten [''tool'', ''poetry'', ''dependencies''] = Some (JObj deps') \<and>
      map_of deps' ''sibling'' = Some (JObj dep') \<and>
      map_of dep' ''develop'' = None \<and>
      map_of dep' ''path'' = Some (JStr ''/var/task/sibling''))"
proof -
  let ?deps = "[(''python'', JStr ''^3.9''),
                (''sibling'', JObj [(''path'', JStr ''../sibling''), (''develop'', JBool True)])]"
  let ?dep = "[(''path'', JStr ''../sibling''), (''develop'', JBool True)]"
  have h1: "rewriteManifest ''/host/stage/api/pyproject.toml'' (Some ''/host/stage'')
              exampleManifest = Inr exampleRewritten"
    by code_simp
  have h2: "getPath exampleManifest [''tool'', ''poetry'', ''dependencies''] = Some (JObj ?deps)"
    by code_simp
  have h3: "map_of ?deps ''sibling'' = Some (JObj ?dep)" by simp
  have h4: "map_of ?dep ''develop'' = Some (JBool True)" by simp
  have h5: "map_of ?dep ''path'' = Some (JStr ''../sibling'')" by simp
  from sibling_path_rewritten [OF h1 h2 h3 h4 h5] h1 show ?thesis by blast
qed

section \<open>The guard, the exception and the table that is always removed\<close>

text \<open>
  Claim C8. When the manifest's path is \<^verbatim>\<open>undefined\<close>, the empty string or a string of
  length 1, \<^verbatim>\<open>removeTomlEditableDependencies\<close> returns without an exception and leaves
  the world as it is: no file is changed and the trace gains no event, so nothing was read,
  deleted or written.
\<close>

theorem short_path_skipped:
  assumes "case tomlFilePath of None \<Rightarrow> True | Some p \<Rightarrow> length p < 2"
  shows "removeTomlEditableDependencies parse stringify tomlFilePath projectRootPath w = (None, w)"
  using assms by (auto simp: removeTomlEditableDependencies_def split: option.splits)

theorem short_path_skipped_witness:
  "(case Some ''x'' of None \<Rightarrow> True | Some p \<Rightarrow> length p < 2) \<and>
   removeTomlEditableDependencies exampleParse exampleStringify (Some ''x'') (Some ''/host/stage'')
     \<lparr>nodes = [(''x'', File exampleText)], trace = []\<rparr>
   = (None, \<lparr>nodes = [(''x'', File exampleText)], trace = []\<rparr>)"
proof -
  have h: "case Some ''x'' of None \<Rightarrow> True | Some p \<Rightarrow> length p < 2" by simp
  from short_path_skipped [OF h] h show ?thesis by blast
qed

text \<open>
  Claim C9. The file at the manifest's path parses, and the parsed manifest has no
  \<^verbatim>\<open>tool.poetry.dependencies\<close>: \<^verbatim>\<open>tool\<close>, \<^verbatim>\<open>tool.poetry\<close> or the table itself is
  missing. Then the function raises a TypeError, and the only thing it has done is to read
  the file: every file is as it was.
\<close>

theorem missing_dependencies_raises:
  assumes "2 \<le> length p"
    and "map_of (nodes w) p = Some (File contents)"
    and "parse contents = Some doc"
    and "getPath doc [''tool'', ''poetry'', ''dependencies''] = None"
  shows "removeTomlEditableDependencies parse stringify (Some p) r w
         = (Some TypeError, w\<lparr>trace := trace w @ [ReadFile p]\<rparr>)"
proof -
  from assms(4) have "rewriteManifest p r doc = Inl TypeError"
    by (auto simp: rewriteManifest_def split: option.splits)
  with assms(1-3) show ?thesis
    by (auto simp: removeTomlEditableDependencies_def readFileSync_def logged_def)
qed

theorem missing_dependencies_raises_witness:
  "removeTomlEditableDependencies exampleParse exampleStringify
     (Some ''/host/stage/tools/pyproject.toml'') (Some ''/host/stage'')
     \<lparr>nodes = [(''/host/stage/tools/pyproject.toml'', File formatterText)], trace = []\<rparr>
   = (Some TypeError,
      \<lparr>nodes = [(''/host/stage/tools/pyproject.toml'', File formatterText)],
       trace = [ReadFile ''/host/stage/tools/pyproject.toml'']\<rparr>)"
proof -
  let ?p = "''/host/stage/tools/pyproject.toml''"
  let ?w = "\<lparr>nodes = [(?p, File formatterText)], trace = []\<rparr>"
  have h1: "2 \<le> length ?p" by simp
  have h2: "map_of (nodes ?w) ?p = Some (File formatterText)" by simp
  have h3: "exampleParse formatterText = Some formatterManifest" by code_simp
  have h4: "getPath formatterManifest [''tool'', ''poetry'', ''dependencies''] = None"
    by code_simp
  from missing_dependencies_raises
         [where parse = exampleParse and stringify = exampleStringify
            and r = "Some ''/host/stage''", OF h1 h2 h3 h4]
  show ?thesis by simp
qed

text \<open>
  Claim C6. Whenever \<^verbatim>\<open>removeTomlEditableDependencies\<close> returns from a manifest it did
  not skip, the file holds what \<^verbatim>\<open>TOML.stringify\<close> made of a manifest that has no
  \<^verbatim>\<open>tool.poetry.dev-dependencies\<close>: the rewrite of the manifest that was read, whether or
  not that one had the table.
\<close>

theorem dev_dependencies_removed:
  assumes "removeTomlEditableDependencies parse stringify (Some p) r w = (None, w')"
    and "2 \<le> length p"
  shows "\<exists>contents doc doc' written.
           map_of (nodes w) p = Some (File contents) \<and> parse contents = Some doc \<and>
           rewriteManifest p r doc = Inr doc' \<and>
           getPath doc' [''tool'', ''poetry'', ''dev-dependencies''] = None \<and>
           stringify doc' = Inr written \<and>
           map_of (nodes w') p = Some (File written) \<and>
           trace w' = trace w @ [ReadFile p, RmFile p, WriteFile p written]"
proof -
  from assms obtain contents doc doc' written where
    c: "map_of (nodes w) p = Some (File contents)" and d: "parse contents = Some doc"
    and d': "rewriteManifest p r doc = Inr doc'" and s: "stringify doc' = Inr written"
    and w': "w' = \<lparr>nodes = AList.update p (File written) (AList.delete p (nodes w)),
                   trace = trace w @ [ReadFile p, RmFile p, WriteFile p written]\<rparr>"
    by (rule removeTomlEditableDependencies_returns)
  from w' have "map_of (nodes w') p = Some (File written)"
    and "trace w' = trace w @ [ReadFile p, RmFile p, WriteFile p written]"
    by (simp_all add: update_conv')
  moreover from d' have "getPath doc' [''tool'', ''poetry'', ''dev-dependencies''] = None"
    by (auto elim: rewriteManifest_dependencies)
  ultimately show ?thesis using c d d' s by blast
qed

theorem dev_dependencies_removed_witness:
  "fst (removeTomlEditableDependencies exampleParse exampleStringify
          (Some ''/host/stage/api/pyproject.toml'') None
          \<lparr>nodes = [(''/host/stage/api/pyproject.toml'', File exampleText)], trace = []\<rparr>) = None \<and>
   getPath exampleManifest [''tool'', ''poetry'', ''dev-dependencies'']
     = Some (JObj [(''pytest'', JStr ''^6.2'')]) \<and>
   (\<exists>doc' written.
      getPath doc' [''tool'', ''poetry'', ''dev-dependencies''] = None \<and>
      exampleStringify doc' = Inr written \<and>
      map_of (nodes (snd (removeTomlEditableDependencies exampleParse exampleStringify
          (Some ''/host/stage/api/pyproject.toml'') None
          \<lparr>nodes = [(''/host/stage/api/pyproject.toml'', File exampleText)], trace = []\<rparr>)))
        ''/host/stage/api/pyproject.toml'' = Some (File written))"
proof -
  let ?p = "''/host/stage/api/pyproject.toml''"
  let ?run = "removeTomlEditableDependencies exampleParse exampleStringify (Some ?p) None
                \<lparr>nodes = [(?p, File exampleText)], trace = []\<rparr>"
  have returned: "fst ?run = None" by code_simp
  then have h1: "?run = (None, snd ?run)" by (metis prod.collapse)
  have h2: "2 \<le> length ?p" by simp
  have had: "getPath exampleManifest [''tool'', ''poetry'', ''dev-dependencies'']
               = Some (JObj [(''pytest'', JStr ''^6.2'')])"
    by code_simp
  from dev_dependencies_removed [OF h1 h2] returned had show ?thesis by blast
qed

section \<open>The archive is gone before \<^verbatim>\<open>zip\<close> runs\<close>

text \<open>
  Claim C10. The packaging is enabled and an archive exists at the target path. Then
  \<^verbatim>\<open>zip\<close> is started on a file system from which the archive has been removed, and the
  outcome and the file system are what \<^verbatim>\<open>zip\<close> leaves: when it fails, the promise is
  rejected with its standard error and nothing puts the archive back.
\<close>

theorem archive_deleted_before_zip:
  assumes "dockerBuildPoetryMonorepo opts"
    and "map_of (nodes w) (zipPath servicePath) = Some (File archive)"
    and "exec (zipCmd servicePath) (AList.delete (zipPath servicePath) (nodes w)) = (r, fs')"
  shows "map_of (AList.delete (zipPath servicePath) (nodes w)) (zipPath servicePath) = None \<and>
         zipMonoRepoDeps exec opts servicePath w =
           (if err r then Rejected (Stderr (stderr r)) else Resolved,
            \<lparr>nodes = fs',
             trace = trace w @
               [RmFile (zipPath servicePath),
                Exec (zipCmd servicePath) (AList.delete (zipPath servicePath) (nodes w)) r]\<rparr>)"
  using assms
  by (simp add: zipMonoRepoDeps_def rmSync_def execStep_def logged_def delete_conv')

theorem archive_deleted_before_zip_witness:
  "map_of (nodes exampleWorld) ''/home/dev/mono/api/.serverless/api.zip''
     = Some (File ''PK-previous-archive'') \<and>
   fst (zipMonoRepoDeps failingExec exampleOptions ''/home/dev/mono/api'' exampleWorld)
     = Rejected (Stderr ''No such file or directory'') \<and>
   map_of (nodes (snd (zipMonoRepoDeps failingExec exampleOptions ''/home/dev/mono/api''
     exampleWorld))) ''/home/dev/mono/api/.serverless/api.zip'' = None"
proof -
  let ?sp = "''/home/dev/mono/api''"
  let ?fs = "AList.delete (zipPath ?sp) (nodes exampleWorld)"
  have zp: "zipPath ?sp = ''/home/dev/mono/api/.serverless/api.zip''" by code_simp
  have h1: "dockerBuildPoetryMonorepo exampleOptions" by (simp add: exampleOptions_def)
  have h2: "map_of (nodes exampleWorld) (zipPath ?sp) = Some (File ''PK-previous-archive'')"
    by code_simp
  have h3: "failingExec (zipCmd ?sp) ?fs = (ExecResult True [] ''No such file or directory'', ?fs)"
    by (simp add: failingExec_def)
  from archive_deleted_before_zip [where exec = failingExec, OF h1 h2 h3] h2
  show ?thesis by (simp add: zp)
qed

section \<open>The runs of the pipeline\<close>











section \<open>What becomes of the bind path\<close>




text \<open>The calls before the promise is made raise to the caller: where \<^verbatim>\<open>.serverless\<close> is a
  file, \<^verbatim>\<open>ensureDirSync\<close> of line 39 raises, nothing is staged, and the bind path made at
  line 36 stays.\<close>

lemma requirements_under_file_throws:
  "buildDockerPoetryMonorepo exampleExec exampleParse exampleStringify exampleOptions
     ''/home/dev/mono/api'' ''/host/stage'' blockedWorld
   = (Threw ENOTDIR,
      \<lparr>nodes = nodes blockedWorld @ [(''/host'', Dir), (''/host/stage'', Dir)],
       trace = [MkdirP ''/host/stage'',
                MkdirP ''/home/dev/mono/api/.serverless/requirements'']\<rparr>)"
  by code_simp





section \<open>Paths that are left alone\<close>

text \<open>
  Claim C5, as the code has it. The guard of line 238 looks for the two characters \<^verbatim>\<open>..\<close>
  anywhere in the path, not for a segment \<^verbatim>\<open>..\<close>. A dependency whose path is a string in
  which \<^verbatim>\<open>..\<close> does not occur, such as \<^verbatim>\<open>./vendor\<close>, keeps its path in the rewritten
  manifest, with or without a project root.
\<close>

theorem path_without_dotdot_unchanged:
  assumes "rewriteManifest p r doc = Inr doc'"
    and "getPath doc [''tool'', ''poetry'', ''dependencies''] = Some (JObj deps)"
    and "map_of deps name = Some (JObj dep)"
    and "map_of dep ''path'' = Some (JStr s)"
    and "\<not> (\<exists>a b. s = a @ ''..'' @ b)"
  shows "\<exists>deps' dep'.
           getPath doc' [''tool'', ''poetry'', ''dependencies''] = Some (JObj deps') \<and>
           map_of deps' name = Some (JObj dep') \<and>
           map_of dep' ''path'' = Some (JStr s)"
proof -
  from assms(1) obtain ds ds' where
    ds: "getPath doc [''tool'', ''poetry'', ''dependencies''] = Some ds"
    and rw: "rewriteDependencies p r ds = Inr ds'"
    and ds': "getPath doc' [''tool'', ''poetry'', ''dependencies''] = Some ds'"
    by (rule rewriteManifest_dependencies)
  from ds assms(2) have "ds = JObj deps" by simp
  with rw obtain deps' where d': "ds' = JObj deps'"
    and fwd: "\<And>k v. map_of deps k = Some v \<Longrightarrow>
           \<exists>v'. map_of deps' k = Some v' \<and> rewriteDependency p r v = Inr v'"
    by (auto elim: rewriteDependencies_table)
  from fwd [OF assms(3)] obtain v' where
    v': "map_of deps' name = Some v'" "rewriteDependency p r (JObj dep) = Inr v'"
    by blast
  from assms(5) have "\<not> indexOf s ''..'' > - 1" by (simp add: indexOf_found)
  from rewriteDependency_path_kept [OF v'(2) assms(4) this] obtain dep' where
    "v' = JObj dep'" "map_of dep' ''path'' = Some (JStr s)" by blast
  with ds' d' v'(1) show ?thesis by blast
qed

theorem path_without_dotdot_unchanged_witness:
  "rewriteManifest ''/host/stage/api/pyproject.toml'' (Some ''/host/stage'')
     (manifestWithPath ''./vendor'') = Inr (manifestWithPath ''./vendor'') \<and>
   (\<exists>deps' dep'.
      getPath (manifestWithPath ''./vendor'') [''tool'', ''poetry'', ''dependencies'']
        = Some (JObj deps') \<and>
      map_of deps' ''lib'' = Some (JObj dep') \<and>
      map_of dep' ''path'' = Some (JStr ''./vendor''))"
proof -
  let ?deps = "[(''python'', JStr ''^3.9''), (''lib'', JObj [(''path'', JStr ''./vendor'')])]"
  have h1: "rewriteManifest ''/host/stage/api/pyproject.toml'' (Some ''/host/stage'')
              (manifestWithPath ''./vendor'') = Inr (manifestWithPath ''./vendor'')"
    by code_simp
  have h2: "getPath (manifestWithPath ''./vendor'') [''tool'', ''poetry'', ''dependencies'']
              = Some (JObj ?deps)"
    by code_simp
  have h3: "map_of ?deps ''lib'' = Some (JObj [(''path'', JStr ''./vendor'')])" by simp
  have h4: "map_of [(''path'', JStr ''./vendor'')] ''path'' = Some (JStr ''./vendor'')" by simp
  have "\<not> indexOf ''./vendor'' ''..'' > - 1" by code_simp
  then have h5: "\<not> (\<exists>a b. ''./vendor'' = a @ ''..'' @ b)"
    using indexOf_found [of "''./vendor''" "''..''"] by blast
  from path_without_dotdot_unchanged [OF h1 h2 h3 h4 h5] h1 show ?thesis by blast
qed

text \<open>The claim as the specification states it fails: no segment of \<^verbatim>\<open>./vendor/my..lib\<close> is
  \<^verbatim>\<open>..\<close>, and the rewrite replaces the path all the same.\<close>

theorem dotted_name_rewritten_counterexample:
  "''..'' \<notin> set (split_on CHR ''/'' ''./vendor/my..lib'') \<and>
   vendoredManifest = manifestWithPath ''./vendor/my..lib'' \<and>
   rewriteManifest ''/host/stage/api/pyproject.toml'' (Some ''/host/stage'') vendoredManifest
     = Inr (manifestWithPath ''/var/task/api/vendor/my..lib'')"
  by code_simp

section \<open>Manifests with version strings only\<close>

lemma dropDevDependencies_absent:
  assumes "getPath doc [''tool'', ''poetry'', ''dependencies''] = Some deps"
    and "getPath doc [''tool'', ''poetry'', ''dev-dependencies''] = None"
  shows "dropDevDependencies doc = doc"
proof -
  from assms(1) obtain tool poetry where t: "getProp doc ''tool'' = Some tool"
    and po: "getProp tool ''poetry'' = Some poetry"
    by (auto split: option.splits)
  from assms(2) t po have "getProp poetry ''dev-dependencies'' = None"
    by (simp split: option.splits)
  then have "deleteProp poetry ''dev-dependencies'' = poetry"
    by (auto simp: getProp_def deleteProp_def map_of_eq_None_iff split: jsval.splits)
  with t po show ?thesis by (simp add: dropDevDependencies_def updateProp_same)
qed

lemma rewriteManifest_not_objects:
  assumes "getPath doc [''tool'', ''poetry'', ''dependencies''] = Some (JObj deps)"
    and "\<forall>v \<in> snd ` set deps. typeof v \<noteq> ''object''"
  shows "rewriteManifest p r doc = Inr (dropDevDependencies doc)"
proof -
  from assms(1) obtain tool poetry where t: "getProp doc ''tool'' = Some tool"
    and po: "getProp tool ''poetry'' = Some poetry"
    and d: "getProp poetry ''dependencies'' = Some (JObj deps)"
    by (auto split: option.splits)
  from assms(2) have "forEachDependency p r (map snd deps) = Inr (map snd deps)"
    by (intro forEachDependency_not_objects) auto
  then have "rewriteDependencies p r (JObj deps) = Inr (JObj deps)"
    by (simp add: rewriteDependencies_def zip_map_fst_snd)
  with t po d show ?thesis
    by (simp add: rewriteManifest_def dropDevDependencies_def updateProp_same)
qed

text \<open>
  Claim C7, as the code has it. The dependencies of the manifest are a table with no
  value of type object in it. Then the rewrite changes nothing in the parsed manifest but
  the removal of \<^verbatim>\<open>dev-dependencies\<close>, and nothing at all when that table is absent; and
  the file is replaced by what \<^verbatim>\<open>TOML.stringify\<close> prints for that manifest. Whether the
  bytes are those of the file that was read is up to \<^verbatim>\<open>TOML.stringify\<close>.
\<close>

theorem version_strings_only_rewrite:
  assumes "2 \<le> length p"
    and "map_of (nodes w) p = Some (File contents)"
    and "parse contents = Some doc"
    and "getPath doc [''tool'', ''poetry'', ''dependencies''] = Some (JObj deps)"
    and "\<forall>v \<in> snd ` set deps. typeof v \<noteq> ''object''"
    and "stringify (dropDevDependencies doc) = Inr written"
  shows "rewriteManifest p r doc = Inr (dropDevDependencies doc) \<and>
         (getPath doc [''tool'', ''poetry'', ''dev-dependencies''] = None
            \<longrightarrow> dropDevDependencies doc = doc) \<and>
         removeTomlEditableDependencies parse stringify (Some p) r w =
           (None,
            \<lparr>nodes = AList.update p (File written) (AList.delete p (nodes w)),
             trace = trace w @ [ReadFile p, RmFile p, WriteFile p written]\<rparr>)"
proof -
  have rw: "rewriteManifest p r doc = Inr (dropDevDependencies doc)"
    using assms(4,5) by (rule rewriteManifest_not_objects)
  have "removeTomlEditableDependencies parse stringify (Some p) r w =
           (None,
            \<lparr>nodes = AList.update p (File written) (AList.delete p (nodes w)),
             trace = trace w @ [ReadFile p, RmFile p, WriteFile p written]\<rparr>)"
    using assms(1,2,3,6) rw
    by (auto simp: removeTomlEditableDependencies_def readFileSync_def rmSync_def
          writeFileSync_def logged_def delete_conv')
  with rw dropDevDependencies_absent [OF assms(4)] show ?thesis by blast
qed

theorem version_strings_only_rewrite_witness:
  "commentParse commentedText = Some plainManifest \<and>
   rewriteManifest ''/host/stage/api/pyproject.toml'' None plainManifest = Inr plainManifest \<and>
   removeTomlEditableDependencies commentParse plainStringify
     (Some ''/host/stage/api/pyproject.toml'') None
     \<lparr>nodes = [(''/host/stage/api/pyproject.toml'', File commentedText)], trace = []\<rparr>
   = (None,
      \<lparr>nodes = [(''/host/stage/api/pyproject.toml'', File plainText)],
       trace = [ReadFile ''/host/stage/api/pyproject.toml'',
                RmFile ''/host/stage/api/pyproject.toml'',
                WriteFile ''/host/stage/api/pyproject.toml'' plainText]\<rparr>)"
proof -
  let ?p = "''/host/stage/api/pyproject.toml''"
  let ?w = "\<lparr>nodes = [(?p, File commentedText)], trace = []\<rparr>"
  let ?deps = "[(''python'', JStr ''^3.9''), (''boto3'', JStr ''^1.17'')]"
  have h1: "2 \<le> length ?p" by simp
  have h2: "map_of (nodes ?w) ?p = Some (File commentedText)" by simp
  have h3: "commentParse commentedText = Some plainManifest" by (simp add: commentParse_def)
  have h4: "getPath plainManifest [''tool'', ''poetry'', ''dependencies''] = Some (JObj ?deps)"
    by code_simp
  have h5: "\<forall>v \<in> snd ` set ?deps. typeof v \<noteq> ''object''" by (simp add: typeof_def)
  have nodev: "getPath plainManifest [''tool'', ''poetry'', ''dev-dependencies''] = None"
    by code_simp
  have same: "dropDevDependencies plainManifest = plainManifest" by code_simp
  have h6: "plainStringify (dropDevDependencies plainManifest) = Inr plainText"
    by (simp add: same plainStringify_def)
  from version_strings_only_rewrite
         [where parse = commentParse and stringify = plainStringify and r = None,
          OF h1 h2 h3 h4 h5 h6]
  show ?thesis using h3 same by simp
qed

text \<open>
  The claim as the specification states it fails. \<^verbatim>\<open>TOML.parse\<close> reads the same manifest,
  version strings only and no \<^verbatim>\<open>dev-dependencies\<close>, from two texts that differ in a
  comment. Whatever \<^verbatim>\<open>TOML.stringify\<close> prints for that manifest, the rewrite does not leave
  both files byte for byte as they were.
\<close>

theorem comment_not_kept_counterexample:
  "plainText \<noteq> commentedText \<and>
   commentParse plainText = Some plainManifest \<and>
   commentParse commentedText = Some plainManifest \<and>
   (\<forall>stringify.
      \<not> (manifestAfter commentParse stringify None plainText = Some (File plainText) \<and>
         manifestAfter commentParse stringify None commentedText = Some (File commentedText)))"
proof -
  have ne: "plainText \<noteq> commentedText" by code_simp
  have rw: "rewriteManifest ''/host/stage/api/pyproject.toml'' None plainManifest
            = Inr plainManifest"
    by code_simp
  have after: "manifestAfter commentParse stringify None contents =
                 (case stringify plainManifest of Inl e \<Rightarrow> None | Inr t \<Rightarrow> Some (File t))"
    if "contents = plainText \<or> contents = commentedText" for stringify contents
    using that rw
    by (auto simp: manifestAfter_def removeTomlEditableDependencies_def readFileSync_def
          rmSync_def writeFileSync_def logged_def commentParse_def split: sum.splits)
  have "\<not> (manifestAfter commentParse stringify None plainText = Some (File plainText) \<and>
           manifestAfter commentParse stringify None commentedText = Some (File commentedText))"
    for stringify
    using ne by (auto simp: after split: sum.splits)
  with ne show ?thesis by (simp add: commentParse_def)
qed

section \<open>Rewriting a rewritten manifest\<close>

text \<open>On the parsed manifest: a second rewrite of a manifest that is settled, or without a
  project root, gives the manifest again.\<close>

lemma rewriteManifest_idempotent:
  assumes "rewriteManifest p r doc = Inr doc'"
    and "pathsSettled doc' \<or> r = None \<or> r = Some []"
  shows "rewriteManifest p r doc' = Inr doc'"
proof -
  from assms(1) obtain tool poetry deps deps' where
    t: "getProp doc ''tool'' = Some tool" and po: "getProp tool ''poetry'' = Some poetry"
    and d: "getProp poetry ''dependencies'' = Some deps"
    and rw: "rewriteDependencies p r deps = Inr deps'"
    and doc': "doc' = updateProp doc ''tool'' (updateProp tool ''poetry''
                 (deleteProp (updateProp poetry ''dependencies'' deps') ''dev-dependencies''))"
    by (auto simp: rewriteManifest_def split: option.splits sum.splits)
  let ?poetry' = "deleteProp (updateProp poetry ''dependencies'' deps') ''dev-dependencies''"
  let ?tool' = "updateProp tool ''poetry'' ?poetry'"
  have t': "getProp doc' ''tool'' = Some ?tool'"
    using t doc' by (auto simp: getProp_def updateProp_def update_conv' split: jsval.splits)
  have po': "getProp ?tool' ''poetry'' = Some ?poetry'"
    using po by (auto simp: getProp_def updateProp_def update_conv' split: jsval.splits)
  have d': "getProp ?poetry' ''dependencies'' = Some deps'"
    using d by (auto simp: getProp_def updateProp_def deleteProp_def update_conv' delete_conv'
                  split: jsval.splits)
  have gp: "getPath doc' [''tool'', ''poetry'', ''dependencies''] = Some deps'"
    using t' po' d' by simp
  from assms(2) gp have
    "(case deps' of JObj deps \<Rightarrow> list_all pathSettled (map snd deps)
      | JArr vs \<Rightarrow> list_all pathSettled vs | _ \<Rightarrow> True) \<or> r = None \<or> r = Some []"
    by (auto simp: pathsSettled_def split: jsval.splits)
  from rewriteDependencies_idem [OF rw this]
  have rw': "rewriteDependencies p r deps' = Inr deps'" .
  have same: "deleteProp (updateProp ?poetry' ''dependencies'' deps') ''dev-dependencies''
              = ?poetry'"
    using d' by (auto simp: updateProp_same)
                (auto simp: deleteProp_def delete_idem split: jsval.splits)
  from t' po' d' rw' same show ?thesis
    by (simp add: rewriteManifest_def updateProp_same)
qed

section \<open>Manifests that differ in the order of their properties\<close>

lemma same_JStr: "sameUpToOrder v (JStr s) \<Longrightarrow> v = JStr s"
  by (cases v) simp_all

lemma same_JStr': "sameUpToOrder (JStr s) v \<Longrightarrow> v = JStr s"
  by (cases v) simp_all

lemma same_truthy: "sameUpToOrder a b \<Longrightarrow> truthy (Some a) = truthy (Some b)"
  by (cases a; cases b) simp_all

lemma same_JObj: "sameUpToOrder a (JObj kvs') \<Longrightarrow> \<exists>kvs. a = JObj kvs"
  by (cases a) simp_all

lemma same_JArr: "sameUpToOrder a (JArr vs') \<Longrightarrow> \<exists>vs. a = JArr vs \<and> list_all2 sameUpToOrder vs vs'"
  by (cases a) simp_all

lemma same_other:
  "sameUpToOrder a b \<Longrightarrow> (\<forall>kvs. b \<noteq> JObj kvs) \<Longrightarrow> (\<forall>vs. b \<noteq> JArr vs) \<Longrightarrow> a = b"
  by (cases a; cases b) simp_all

lemma same_lookup:
  assumes "sameUpToOrder (JObj kvs) (JObj kvs')"
  shows "(map_of kvs k = None \<and> map_of kvs' k = None) \<or>
         (\<exists>v v'. map_of kvs k = Some v \<and> map_of kvs' k = Some v' \<and> sameUpToOrder v v')"
proof (cases "k \<in> set (map fst kvs)")
  case True
  then obtain v where v: "(k, v) \<in> set kvs" by auto
  with assms have "map_of kvs k = Some v" by simp
  moreover from assms v obtain v' where "map_of kvs' k = Some v'" "sameUpToOrder v v'"
    by (auto split: option.splits)
  ultimately show ?thesis by blast
next
  case False
  with assms have "k \<notin> set (map fst kvs')" by simp
  with False show ?thesis by (simp add: map_of_eq_None_iff)
qed

lemma same_getProp:
  assumes "sameUpToOrder a b" and "getProp b k = Some y"
  shows "\<exists>x. getProp a k = Some x \<and> sameUpToOrder x y"
proof -
  from assms(2) obtain kvs' where b: "b = JObj kvs'" and y: "map_of kvs' k = Some y"
    by (auto simp: getProp_def split: jsval.splits)
  from assms(1) b obtain kvs where a: "a = JObj kvs" by (auto dest: same_JObj)
  from same_lookup [of kvs kvs' k] assms(1) a b y show ?thesis
    by (auto simp: getProp_def)
qed

lemma same_getProp_None:
  assumes "sameUpToOrder a b" and "getProp b k = None"
  shows "getProp a k = None"
proof (cases b)
  case (JObj kvs')
  with assms(1) obtain kvs where a: "a = JObj kvs" by (auto dest: same_JObj)
  from same_lookup [of kvs kvs' k] assms a JObj show ?thesis by (auto simp: getProp_def)
next
  case (JArr vs')
  with assms(1) show ?thesis by (auto dest: same_JArr simp: getProp_def)
qed (use assms(1) in \<open>auto simp: getProp_def dest: same_other\<close>)

lemma same_member:
  "list_all2 sameUpToOrder vs vs' \<Longrightarrow> JStr s \<in> set vs \<Longrightarrow> JStr s \<in> set vs'"
  by (induction rule: list_all2_induct) (auto dest: same_JStr')

text \<open>Nothing is done to an inert dependency; what the callback returns is inert, when its
  path is settled or no project root is supplied; and a dependency that is the same up to
  order as an inert one is inert.\<close>

lemma inert_unchanged: "inert r v \<Longrightarrow> rewriteDependency p r v = Inr v"
  by (auto simp: inert_def rewriteDependency_def rewritePath_def typeof_def Let_def
        split: jsval.splits option.splits)

lemma rewritten_inert:
  assumes "rewriteDependency p r v = Inr v'"
    and "pathSettled v' \<or> r = None \<or> r = Some []"
  shows "inert r v'"
  using assms
  by (auto simp: inert_def rewriteDependency_def rewritePath_def typeof_def Let_def
        pathSettled_def update_conv' delete_conv' map_sum_def
        split: jsval.splits option.splits if_splits sum.splits)

lemma same_inert:
  assumes "sameUpToOrder v v'" and "inert r v'"
  shows "inert r v"
proof (cases v')
  case (JObj kvs')
  with assms(1) obtain kvs where v: "v = JObj kvs" by (auto dest: same_JObj)
  from assms(1) v JObj have s: "sameUpToOrder (JObj kvs) (JObj kvs')" by simp
  from same_lookup [OF s, of "''develop''"]
  have d: "truthy (map_of kvs ''develop'') = truthy (map_of kvs' ''develop'')"
    by (auto dest: same_truthy)
  from same_lookup [OF s, of "''path''"]
  have pt: "truthy (map_of kvs ''path'') = truthy (map_of kvs' ''path'')"
    by (auto dest: same_truthy)
  have pa: "(case map_of kvs ''path'' of
              Some (JStr s) \<Rightarrow> \<not> indexOf s ''..'' > - 1
            | Some (JArr vs) \<Rightarrow> JStr ''..'' \<notin> set vs
            | _ \<Rightarrow> False)"
    if "(case map_of kvs' ''path'' of
              Some (JStr s) \<Rightarrow> \<not> indexOf s ''..'' > - 1
            | Some (JArr vs) \<Rightarrow> JStr ''..'' \<notin> set vs
            | _ \<Rightarrow> False)"
    using same_lookup [OF s, of "''path''"] that
    by (auto split: option.splits jsval.splits dest: same_JStr same_JArr same_member)
  from assms(2) JObj v d pt pa show ?thesis by (auto simp: inert_def)
next
  case (JArr vs')
  with assms(1) show ?thesis by (auto dest: same_JArr simp: inert_def)
qed (use assms in \<open>auto dest: same_other\<close>)

lemma forEachDependency_inert: "list_all (inert r) vs \<Longrightarrow> forEachDependency p r vs = Inr vs"
  by (induction vs) (simp_all add: inert_unchanged)

lemma forEachDependency_gives_inert:
  assumes "forEachDependency p r vs = Inr vs'"
    and "list_all pathSettled vs' \<or> r = None \<or> r = Some []"
  shows "list_all (inert r) vs'"
proof -
  from forEachDependency_all2 [OF assms(1)]
  have "list_all2 (\<lambda>v v'. rewriteDependency p r v = Inr v') vs vs'" .
  then show ?thesis using assms(2)
    by (induction rule: list_all2_induct) (auto intro: rewritten_inert)
qed

lemma same_all_inert:
  "list_all2 sameUpToOrder vs vs' \<Longrightarrow> list_all (inert r) vs' \<Longrightarrow> list_all (inert r) vs"
  by (induction rule: list_all2_induct) (auto intro: same_inert)

lemma rewriteDependencies_readback:
  assumes rw: "rewriteDependencies p r d = Inr d'"
    and settled: "(case d' of JObj deps \<Rightarrow> list_all pathSettled (map snd deps)
          | JArr vs \<Rightarrow> list_all pathSettled vs | _ \<Rightarrow> True) \<or> r = None \<or> r = Some []"
    and same: "sameUpToOrder d1 d'"
  shows "rewriteDependencies p r d1 = Inr d1"
proof (cases d')
  case (JObj kvs')
  with rw obtain kvs vs' where d: "d = JObj kvs"
    and fe: "forEachDependency p r (map snd kvs) = Inr vs'"
    and d': "kvs' = zip (map fst kvs) vs'"
    by (cases d) (auto simp: rewriteDependencies_def map_sum_def split: sum.splits)
  from forEachDependency_length [OF fe] d' have sn: "map snd kvs' = vs'" by simp
  from settled JObj sn have "list_all pathSettled vs' \<or> r = None \<or> r = Some []" by simp
  from forEachDependency_gives_inert [OF fe this] sn
  have inert': "\<forall>v' \<in> snd ` set kvs'. inert r v'" by (force simp: list_all_iff)
  from same JObj obtain kvs1 where d1: "d1 = JObj kvs1" by (auto dest: same_JObj)
  have "inert r v1" if "(k, v1) \<in> set kvs1" for k v1
  proof -
    from same d1 JObj that obtain v' where "map_of kvs' k = Some v'" "sameUpToOrder v1 v'"
      by (auto split: option.splits)
    moreover from this(1) have "v' \<in> snd ` set kvs'" by (force dest: map_of_SomeD)
    ultimately show ?thesis using inert' by (auto intro: same_inert)
  qed
  then have "list_all (inert r) (map snd kvs1)" by (auto simp: list_all_iff)
  from forEachDependency_inert [OF this] d1 show ?thesis
    by (simp add: rewriteDependencies_def zip_map_fst_snd)
next
  case (JArr vs')
  with rw obtain vs where fe: "forEachDependency p r vs = Inr vs'"
    by (cases d) (auto simp: rewriteDependencies_def map_sum_def split: sum.splits)
  from settled JArr have "list_all pathSettled vs' \<or> r = None \<or> r = Some []" by simp
  from forEachDependency_gives_inert [OF fe this] have i: "list_all (inert r) vs'" .
  from same JArr obtain vs1 where d1: "d1 = JArr vs1" and s: "list_all2 sameUpToOrder vs1 vs'"
    by (auto dest: same_JArr)
  from forEachDependency_inert [OF same_all_inert [OF s i]] d1 show ?thesis
    by (simp add: rewriteDependencies_def)
qed (use same in \<open>auto dest: same_other simp: rewriteDependencies_def\<close>)

text \<open>On the parsed manifest: the manifest a rewrite gave, read back up to the order of the
  properties, is given again by a second rewrite, when its paths are settled or no project
  root is supplied.\<close>

lemma rewriteManifest_readback:
  assumes rw: "rewriteManifest p r doc = Inr doc'"
    and settled: "pathsSettled doc' \<or> r = None \<or> r = Some []"
    and same: "sameUpToOrder readback doc'"
  shows "rewriteManifest p r readback = Inr readback"
proof -
  from rw obtain tool poetry deps deps' where
    t: "getProp doc ''tool'' = Some tool" and po: "getProp tool ''poetry'' = Some poetry"
    and d: "getProp poetry ''dependencies'' = Some deps"
    and rwd: "rewriteDependencies p r deps = Inr deps'"
    and doc': "doc' = updateProp doc ''tool'' (updateProp tool ''poetry''
                 (deleteProp (updateProp poetry ''dependencies'' deps') ''dev-dependencies''))"
    by (auto simp: rewriteManifest_def split: option.splits sum.splits)
  let ?poetry' = "deleteProp (updateProp poetry ''dependencies'' deps') ''dev-dependencies''"
  let ?tool' = "updateProp tool ''poetry'' ?poetry'"
  have t': "getProp doc' ''tool'' = Some ?tool'"
    using t doc' by (auto simp: getProp_def updateProp_def update_conv' split: jsval.splits)
  have po': "getProp ?tool' ''poetry'' = Some ?poetry'"
    using po by (auto simp: getProp_def updateProp_def update_conv' split: jsval.splits)
  have d': "getProp ?poetry' ''dependencies'' = Some deps'"
    using d by (auto simp: getProp_def updateProp_def deleteProp_def update_conv' delete_conv'
                  split: jsval.splits)
  have dev': "getProp ?poetry' ''dev-dependencies'' = None"
    using d by (auto simp: getProp_def updateProp_def deleteProp_def delete_conv'
                  split: jsval.splits)
  have gp: "getPath doc' [''tool'', ''poetry'', ''dependencies''] = Some deps'"
    using t' po' d' by simp
  from settled gp have settled':
    "(case deps' of JObj deps \<Rightarrow> list_all pathSettled (map snd deps)
      | JArr vs \<Rightarrow> list_all pathSettled vs | _ \<Rightarrow> True) \<or> r = None \<or> r = Some []"
    by (auto simp: pathsSettled_def split: jsval.splits)
  from same_getProp [OF same t'] obtain tool1 where
    t1: "getProp readback ''tool'' = Some tool1" and st: "sameUpToOrder tool1 ?tool'" by blast
  from same_getProp [OF st po'] obtain poetry1 where
    po1: "getProp tool1 ''poetry'' = Some poetry1" and sp: "sameUpToOrder poetry1 ?poetry'"
    by blast
  from same_getProp [OF sp d'] obtain deps1 where
    d1: "getProp poetry1 ''dependencies'' = Some deps1" and sd: "sameUpToOrder deps1 deps'"
    by blast
  from same_getProp_None [OF sp dev'] have dev1: "getProp poetry1 ''dev-dependencies'' = None" .
  from rewriteDependencies_readback [OF rwd settled' sd]
  have rw1: "rewriteDependencies p r deps1 = Inr deps1" .
  from dev1 have "deleteProp poetry1 ''dev-dependencies'' = poetry1"
    by (auto simp: getProp_def deleteProp_def map_of_eq_None_iff split: jsval.splits)
  with t1 po1 d1 rw1 show ?thesis
    by (simp add: rewriteManifest_def updateProp_same)
qed

text \<open>
  Claim C4, as the code has it. \<^verbatim>\<open>removeTomlEditableDependencies\<close> rewrites a manifest and
  writes the text \<^verbatim>\<open>TOML.stringify\<close> prints for it. From that text \<^verbatim>\<open>TOML.parse\<close> reads a
  manifest that is the printed one up to the order of the properties, and \<^verbatim>\<open>TOML.stringify\<close>
  prints that manifest as the same text. Then a second call, with the same path and project
  root, finds nothing to rewrite in the manifest it reads, returns, and leaves every file
  with the contents the first call left, provided the rewritten manifest has no dependency
  whose path is a string in which \<^verbatim>\<open>..\<close> occurs; that condition is not needed when no
  project root, or an empty one, is supplied.
\<close>

theorem rewrite_idempotent:
  assumes "2 \<le> length p"
    and "map_of (nodes w) p = Some (File contents)"
    and "parse contents = Some doc"
    and "rewriteManifest p r doc = Inr doc'"
    and "stringify doc' = Inr written"
    and "parse written = Some readback"
    and "sameUpToOrder readback doc'"
    and "stringify readback = Inr written"
    and "pathsSettled doc' \<or> r = None \<or> r = Some []"
  shows "\<exists>w1 w2.
           removeTomlEditableDependencies parse stringify (Some p) r w = (None, w1) \<and>
           map_of (nodes w1) p = Some (File written) \<and>
           rewriteManifest p r readback = Inr readback \<and>
           removeTomlEditableDependencies parse stringify (Some p) r w1 = (None, w2) \<and>
           nodes w2 = nodes w1"
proof -
  let ?w1 = "\<lparr>nodes = AList.update p (File written) (AList.delete p (nodes w)),
              trace = trace w @ [ReadFile p, RmFile p, WriteFile p written]\<rparr>"
  let ?w2 = "\<lparr>nodes = AList.update p (File written) (AList.delete p (nodes ?w1)),
              trace = trace ?w1 @ [ReadFile p, RmFile p, WriteFile p written]\<rparr>"
  have first: "removeTomlEditableDependencies parse stringify (Some p) r w = (None, ?w1)"
    using assms(1-5) by (rule removeTomlEditableDependencies_run)
  have onfile: "map_of (nodes ?w1) p = Some (File written)" by (simp add: update_conv')
  have again: "rewriteManifest p r readback = Inr readback"
    using assms(4,9,7) by (rule rewriteManifest_readback)
  have second: "removeTomlEditableDependencies parse stringify (Some p) r ?w1 = (None, ?w2)"
    using assms(1) onfile assms(6) again assms(8) by (rule removeTomlEditableDependencies_run)
  have "nodes ?w2 = nodes ?w1" by (simp add: delete_update_same delete_idem)
  with first onfile again second show ?thesis by blast
qed

theorem rewrite_idempotent_witness:
  "exampleRewritten \<noteq> linkedFirstRewritten \<and>
   fst (removeTomlEditableDependencies orderingParse orderingStringify
          (Some ''/host/stage/api/pyproject.toml'') (Some ''/host/stage'')
          \<lparr>nodes = [(''/host/stage/api/pyproject.toml'', File linkedFirstText)], trace = []\<rparr>)
     = None \<and>
   rewriteManifest ''/host/stage/api/pyproject.toml'' (Some ''/host/stage'') exampleRewritten
     = Inr exampleRewritten \<and>
   (\<exists>w2. removeTomlEditableDependencies orderingParse orderingStringify
            (Some ''/host/stage/api/pyproject.toml'') (Some ''/host/stage'')
            (snd (removeTomlEditableDependencies orderingParse orderingStringify
               (Some ''/host/stage/api/pyproject.toml'') (Some ''/host/stage'')
               \<lparr>nodes = [(''/host/stage/api/pyproject.toml'', File linkedFirstText)],
                trace = []\<rparr>))
          = (None, w2) \<and>
          nodes w2 = [(''/host/stage/api/pyproject.toml'', File exampleRewrittenText)])"
proof -
  let ?p = "''/host/stage/api/pyproject.toml''" and ?r = "Some ''/host/stage''"
  let ?w = "\<lparr>nodes = [(?p, File linkedFirstText)], trace = []\<rparr>"
  have differ: "exampleRewritten \<noteq> linkedFirstRewritten" by code_simp
  have h1: "2 \<le> length ?p" by simp
  have h2: "map_of (nodes ?w) ?p = Some (File linkedFirstText)" by simp
  have h3: "orderingParse linkedFirstText = Some linkedFirstManifest"
    by (simp add: orderingParse_def)
  have h4: "rewriteManifest ?p ?r linkedFirstManifest = Inr linkedFirstRewritten" by code_simp
  have h5: "orderingStringify linkedFirstRewritten = Inr exampleRewrittenText"
    by (simp add: orderingStringify_def)
  have h6: "orderingParse exampleRewrittenText = Some exampleRewritten" by code_simp
  have h7: "sameUpToOrder exampleRewritten linkedFirstRewritten" by code_simp
  have h8: "orderingStringify exampleRewritten = Inr exampleRewrittenText" by code_simp
  have h9: "pathsSettled linkedFirstRewritten \<or> ?r = None \<or> ?r = Some []" by code_simp
  have left: "nodes (snd (removeTomlEditableDependencies orderingParse orderingStringify
                (Some ?p) ?r ?w)) = [(?p, File exampleRewrittenText)]"
    by code_simp
  from rewrite_idempotent
         [where parse = orderingParse and stringify = orderingStringify,
          OF h1 h2 h3 h4 h5 h6 h7 h8 h9]
  show ?thesis using differ left by auto
qed

text \<open>
  The claim as the specification states it fails. The sibling library is in a directory
  named \<^verbatim>\<open>my..lib\<close>: the first rewrite makes its path \<^verbatim>\<open>/var/task/my..lib\<close>, in which
  \<^verbatim>\<open>..\<close> still occurs, and the second rewrite resolves that path once more. The file after
  the second rewrite is not the file after the first.
\<close>

theorem second_rewrite_differs_counterexample:
  "dottedManifest = manifestWithPath ''../my..lib'' \<and>
   rewriteManifest ''/host/stage/api/pyproject.toml'' (Some ''/host/stage'') dottedManifest
     = Inr (manifestWithPath ''/var/task/my..lib'') \<and>
   rewriteManifest ''/host/stage/api/pyproject.toml'' (Some ''/host/stage'')
     (manifestWithPath ''/var/task/my..lib'')
     = Inr (manifestWithPath ''/var/task/api/var/task/my..lib'') \<and>
   manifestWithPath ''/var/task/api/var/task/my..lib'' \<noteq> manifestWithPath ''/var/task/my..lib'' \<and>
   manifestAfter dottedParse dottedStringify (Some ''/host/stage'') (textWithPath ''../my..lib'')
     = Some (File (textWithPath ''/var/task/my..lib'')) \<and>
   manifestAfter dottedParse dottedStringify (Some ''/host/stage'')
     (textWithPath ''/var/task/my..lib'')
     = Some (File (textWithPath ''/var/task/api/var/task/my..lib'')) \<and>
   textWithPath ''/var/task/api/var/task/my..lib'' \<noteq> textWithPath ''/var/task/my..lib''"
  by code_simp

section \<open>What every rewritten manifest satisfies\<close>












end
